theory Spec2Isabelle
  imports Complex_Main
begin

section \<open>Numbers and values\<close>

text \<open>
  The viewer is JavaScript; its numbers are doubles. Finite numbers are modelled as
  \<^typ>\<open>real\<close> with exact arithmetic, so rounding is outside this development.
  Where the source compares against \<^verbatim>\<open>Infinity\<close> or inspects the run-time type
  of a property (\<^verbatim>\<open>typeof x === 'number'\<close>), the values are kept as JavaScript
  numbers and values below.
\<close>

datatype jsnum = Fin real | PosInf | NegInf | NaN

datatype jsval = JNum jsnum | JNull | JUndefined | JStr string | JBool bool

text \<open>\<^verbatim>\<open>typeof\<close>: every number, \<^verbatim>\<open>NaN\<close> and the infinities included, is a
  \<^verbatim>\<open>'number'\<close>.\<close>

fun typeof :: "jsval \<Rightarrow> string" where
  "typeof (JNum n) = ''number''"
| "typeof JNull = ''object''"
| "typeof JUndefined = ''undefined''"
| "typeof (JStr s) = ''string''"
| "typeof (JBool b) = ''boolean''"

text \<open>The relational operators on numbers: any comparison with \<^verbatim>\<open>NaN\<close> is false.\<close>

fun num_lt :: "jsnum \<Rightarrow> jsnum \<Rightarrow> bool" where
  "num_lt NaN b = False"
| "num_lt a NaN = False"
| "num_lt a NegInf = False"
| "num_lt NegInf b = True"
| "num_lt PosInf b = False"
| "num_lt (Fin x) PosInf = True"
| "num_lt (Fin x) (Fin y) = (x < y)"

definition num_gt :: "jsnum \<Rightarrow> jsnum \<Rightarrow> bool" where
  "num_gt a b = num_lt b a"

definition isFinite :: "jsnum \<Rightarrow> bool" where
  "isFinite n = (case n of Fin x \<Rightarrow> True | _ \<Rightarrow> False)"

section \<open>MolecularViewer: bonds\<close>

text \<open>
  \<^verbatim>\<open>this.maxBondDistances = { 'H': 1.2, 'default': 1.8 }\<close>
\<close>

definition maxBondDistances_H :: real where
  "maxBondDistances_H = 1.2"

definition maxBondDistances_default :: real where
  "maxBondDistances_default = 1.8"

text \<open>A coordinate is the array \<^verbatim>\<open>[x, y, z]\<close>.\<close>

type_synonym coord = "real \<times> real \<times> real"

fun calculateDistance :: "coord \<Rightarrow> coord \<Rightarrow> real" where
  "calculateDistance (x1, y1, z1) (x2, y2, z2) =
     (let dx = x1 - x2; dy = y1 - y2; dz = z1 - z2
      in sqrt (dx * dx + dy * dy + dz * dz))"

text \<open>\<^verbatim>\<open>atoms[i]\<close>: reading past the end of an array gives \<^verbatim>\<open>undefined\<close>
  (here \<open>None\<close>), it does not throw.\<close>

definition atom_at :: "string list \<Rightarrow> nat \<Rightarrow> string option" where
  "atom_at atoms i = (if i < length atoms then Some (atoms ! i) else None)"

text \<open>The threshold chosen in the loop body: the default, replaced by the hydrogen
  one when \<^verbatim>\<open>atoms[i] === 'H' || atoms[j] === 'H'\<close>.\<close>

definition maxDistance :: "string list \<Rightarrow> nat \<Rightarrow> nat \<Rightarrow> real" where
  "maxDistance atoms i j =
     (if atom_at atoms i = Some ''H'' \<or> atom_at atoms j = Some ''H''
      then maxBondDistances_H else maxBondDistances_default)"

text \<open>
  \<^verbatim>\<open>createBonds(atoms, coords)\<close> resets \<^verbatim>\<open>this.bondMeshes\<close> and pushes one entry
  per bonded pair; the model returns the \<^verbatim>\<open>atomIndices\<close> of the entries in push
  order (the meshes are rendering objects). Both loops are bounded by
  \<^verbatim>\<open>coords.length\<close>; the function has no \<^verbatim>\<open>throw\<close> and no length check, so
  its result is a plain list. The inner loop runs \<open>j\<close> from \<open>i + 1\<close>.
\<close>

definition createBonds_inner :: "string list \<Rightarrow> coord list \<Rightarrow> nat \<Rightarrow> (nat \<times> nat) list" where
  "createBonds_inner atoms coords i =
     concat (map (\<lambda>j. if calculateDistance (coords ! i) (coords ! j) < maxDistance atoms i j
                       then [(i, j)] else [])
                 [i + 1 ..< length coords])"

definition createBonds :: "string list \<Rightarrow> coord list \<Rightarrow> (nat \<times> nat) list" where
  "createBonds atoms coords =
     concat (map (createBonds_inner atoms coords) [0 ..< length coords])"

section \<open>MolecularCharts: spectrum and display ceiling\<close>

text \<open>
  An excitation sample as the chart code reads it. The chart functions only do
  arithmetic on the energies, oscillator strengths and time, so these are numbers.
  \<^verbatim>\<open>time_ps\<close>, \<^verbatim>\<open>energy_gap\<close> and \<^verbatim>\<open>interpolated\<close> are the
  properties that only \<^verbatim>\<open>findClosestExcitationData\<close> writes; \<open>None\<close> is a
  property the object does not have (\<^verbatim>\<open>undefined\<close>, which is falsy in
  \<^verbatim>\<open>closestExcitation.interpolated ? ' (interpolated)' : ''\<close>).
\<close>

record excitation =
  time_fs :: real
  time_ps :: "real option"
  s1_energy :: real
  s1_oscillator :: real
  s2_energy :: real
  s2_oscillator :: real
  energy_gap :: "real option"
  interpolated :: "bool option"

text \<open>\<^verbatim>\<open>generateEnergyRange(min, max, steps)\<close>: \<open>steps\<close> points starting at
  \<open>min\<close> with spacing \<open>(max - min) / (steps - 1)\<close>.\<close>

definition generateEnergyRange :: "real \<Rightarrow> real \<Rightarrow> nat \<Rightarrow> real list" where
  "generateEnergyRange minE maxE steps =
     (let step = (maxE - minE) / (real steps - 1)
      in map (\<lambda>i. minE + real i * step) [0 ..< steps])"

text \<open>\<^verbatim>\<open>const width = 0.15; // Gaussian width\<close>\<close>

definition width :: real where
  "width = 0.15"

text \<open>The body of the \<^verbatim>\<open>forEach\<close> of \<^verbatim>\<open>generateSpectrum\<close>: the intensity
  pushed for one energy.\<close>

definition intensity_at :: "excitation \<Rightarrow> real \<Rightarrow> real" where
  "intensity_at excitationData energy =
     (let intensity0 = 0;
          intensity1 =
            (if s1_oscillator excitationData > 0
             then intensity0 + s1_oscillator excitationData *
                    exp (- ((energy - s1_energy excitationData)\<^sup>2) / (2 * width * width))
             else intensity0);
          intensity2 =
            (if s2_oscillator excitationData > 0
             then intensity1 + s2_oscillator excitationData *
                    exp (- ((energy - s2_energy excitationData)\<^sup>2) / (2 * width * width))
             else intensity1)
      in intensity2)"

definition generateSpectrum :: "real list \<Rightarrow> excitation \<Rightarrow> real list" where
  "generateSpectrum energyRange excitationData = map (intensity_at excitationData) energyRange"

text \<open>\<^verbatim>\<open>x || 0\<close> on a number: \<open>0\<close> is the only falsy finite number.\<close>

definition or_zero :: "real \<Rightarrow> real" where
  "or_zero x = (if x = 0 then 0 else x)"

text \<open>
  One round of the \<^verbatim>\<open>forEach\<close> of \<^verbatim>\<open>calculateGlobalYAxisMax\<close> on the pair
  \<open>(maxOscillator, maxSpectrum)\<close>. \<^verbatim>\<open>Math.max(...spectrum)\<close> is taken over the
  1000 points of the energy range, so the spread list is never empty.
\<close>

definition yAxis_step :: "excitation \<Rightarrow> real \<times> real \<Rightarrow> real \<times> real" where
  "yAxis_step excitation acc =
     (case acc of (maxOscillator, maxSpectrum) \<Rightarrow>
        let maxOscillator' =
              max (max maxOscillator (or_zero (s1_oscillator excitation)))
                  (or_zero (s2_oscillator excitation));
            energyRange = generateEnergyRange 2 7 1000;
            spectrum = generateSpectrum energyRange excitation;
            spectrumMax = Max (set spectrum);
            maxSpectrum' = max maxSpectrum spectrumMax
        in (maxOscillator', maxSpectrum'))"

definition calculateGlobalYAxisMax :: "excitation list \<Rightarrow> real" where
  "calculateGlobalYAxisMax excitationData =
     (if excitationData = [] then 2
      else
        (case fold yAxis_step excitationData (0, 0) of (maxOscillator, maxSpectrum) \<Rightarrow>
           let dataMax = max maxOscillator maxSpectrum;
               paddedMax = dataMax * 1.2
           in if paddedMax \<le> 0.1 then 0.1
              else if paddedMax \<le> 0.5 then 0.5
              else if paddedMax \<le> 1 then 1
              else if paddedMax \<le> 2 then 2
              else if paddedMax \<le> 5 then 5
              else of_int \<lceil>paddedMax\<rceil>))"

text \<open>The observed maximum in the words of the specification: the largest of every
  single oscillator value and every value of the spectrum synthesized for a sample.\<close>

definition observed_values :: "excitation list \<Rightarrow> real list" where
  "observed_values excitationData =
     concat (map (\<lambda>e. s1_oscillator e # s2_oscillator e #
                         generateSpectrum (generateEnergyRange 2 7 1000) e)
                 excitationData)"

definition observed_maximum :: "excitation list \<Rightarrow> real" where
  "observed_maximum excitationData = Max (set (observed_values excitationData))"

section \<open>MolecularCharts: sample lookup by time\<close>

text \<open>
  What \<^verbatim>\<open>findClosestExcitationData\<close> returns: \<^verbatim>\<open>null\<close>, an object, or, when
  the two surrounding samples carry the same time, an object built with the fraction
  \<open>0 / 0\<close>, whose interpolated properties are all \<^verbatim>\<open>NaN\<close> and which the record
  of numbers cannot hold.
\<close>

datatype lookup = Null | Sample excitation | NaN_sample

text \<open>The search loop: the first \<open>i\<close> with
  \<^verbatim>\<open>data[i].time_fs <= t && data[i + 1].time_fs >= t\<close>; the result is the pair
  \<open>(data[beforeIndex], data[afterIndex])\<close>, \<open>None\<close> when the indices stay \<open>-1\<close>.\<close>

fun surrounding :: "excitation list \<Rightarrow> real \<Rightarrow> (excitation \<times> excitation) option" where
  "surrounding (before # after # rest) targetTimeFs =
     (if time_fs before \<le> targetTimeFs \<and> time_fs after \<ge> targetTimeFs
      then Some (before, after)
      else surrounding (after # rest) targetTimeFs)"
| "surrounding rest targetTimeFs = None"

text \<open>The fallback of the branch \<^verbatim>\<open>beforeIndex === -1\<close>: the single closest
  point, the first one on a tie.\<close>

definition closest_step :: "real \<Rightarrow> excitation \<Rightarrow> excitation option \<times> jsnum \<Rightarrow> excitation option \<times> jsnum" where
  "closest_step targetTimeFs excitation acc =
     (case acc of (closest, minDiff) \<Rightarrow>
        let diff = \<bar>time_fs excitation - targetTimeFs\<bar>
        in if num_lt (Fin diff) minDiff then (Some excitation, Fin diff) else (closest, minDiff))"

definition closest_point :: "excitation list \<Rightarrow> real \<Rightarrow> lookup" where
  "closest_point excitationData targetTimeFs =
     (case fst (fold (closest_step targetTimeFs) excitationData (None, PosInf)) of
        None \<Rightarrow> Null
      | Some e \<Rightarrow> Sample e)"

definition interpolate :: "excitation \<Rightarrow> excitation \<Rightarrow> real \<Rightarrow> lookup" where
  "interpolate before after targetTimeFs =
     (let timeDiff = time_fs after - time_fs before
      in if timeDiff = 0 then NaN_sample
         else
           let fraction = (targetTimeFs - time_fs before) / timeDiff;
               e1 = s1_energy before + fraction * (s1_energy after - s1_energy before);
               f1 = s1_oscillator before + fraction * (s1_oscillator after - s1_oscillator before);
               e2 = s2_energy before + fraction * (s2_energy after - s2_energy before);
               f2 = s2_oscillator before + fraction * (s2_oscillator after - s2_oscillator before)
           in Sample \<lparr> time_fs = targetTimeFs,
                        time_ps = Some (targetTimeFs / 1000),
                        s1_energy = e1,
                        s1_oscillator = f1,
                        s2_energy = e2,
                        s2_oscillator = f2,
                        energy_gap = Some (e2 - e1),
                        interpolated = Some True \<rparr>)"

definition findClosestExcitationData :: "excitation list \<Rightarrow> real \<Rightarrow> lookup" where
  "findClosestExcitationData excitationData targetTimeFs =
     (if excitationData = [] then Null
      else if targetTimeFs < time_fs (hd excitationData) then Sample (hd excitationData)
      else if targetTimeFs > time_fs (last excitationData) then Sample (last excitationData)
      else
        (case surrounding excitationData targetTimeFs of
           None \<Rightarrow> closest_point excitationData targetTimeFs
         | Some (before, after) \<Rightarrow> interpolate before after targetTimeFs))"

section \<open>createDMABNChart: correlation and bins\<close>

text \<open>
  A geometry frame, and an excitation sample as \<^verbatim>\<open>createDMABNChart\<close> reads it.
  This function tests the run-time type of the two oscillator properties, so they are
  JavaScript values here; times and angles are numbers.
\<close>

record geomFrame =
  twist_angle :: real
  ring_planarity :: real
  frame_time_ps :: real
  frame_time_fs :: real
  frame_number :: nat

record excFrame =
  exc_time_fs :: real
  exc_s1_oscillator :: jsval
  exc_s2_oscillator :: jsval

text \<open>An entry of \<^verbatim>\<open>correlationData\<close>: the properties copied from the geometry
  frame, the two oscillator values (numbers, by the test before the push) and the
  label.\<close>

record correlation = geomFrame +
  corr_s1_oscillator :: jsnum
  corr_s2_oscillator :: jsnum
  s1_dominant :: bool

text \<open>The inner \<^verbatim>\<open>forEach\<close>: \<open>(closestExcitation, minTimeDiff)\<close>, starting from
  \<open>(null, Infinity)\<close>.\<close>

definition nearest_step :: "real \<Rightarrow> excFrame \<Rightarrow> excFrame option \<times> jsnum \<Rightarrow> excFrame option \<times> jsnum" where
  "nearest_step t excFrame acc =
     (case acc of (closestExcitation, minTimeDiff) \<Rightarrow>
        let timeDiff = \<bar>exc_time_fs excFrame - t\<bar>
        in if num_lt (Fin timeDiff) minTimeDiff then (Some excFrame, Fin timeDiff)
           else (closestExcitation, minTimeDiff))"

definition nearest :: "excFrame list \<Rightarrow> real \<Rightarrow> excFrame option \<times> jsnum" where
  "nearest excitationData t = fold (nearest_step t) excitationData (None, PosInf)"

text \<open>
  The body of the outer \<^verbatim>\<open>forEach\<close>: what one geometry frame pushes. The match
  on \<open>JNum\<close> is the pair of tests \<^verbatim>\<open>typeof ... === 'number'\<close>.
\<close>

definition correlate_frame :: "excFrame list \<Rightarrow> geomFrame \<Rightarrow> correlation list" where
  "correlate_frame excitationData g =
     (case nearest excitationData (frame_time_fs g) of
        (None, minTimeDiff) \<Rightarrow> []
      | (Some closestExcitation, minTimeDiff) \<Rightarrow>
          if num_lt minTimeDiff (Fin 50) then
            (case (exc_s1_oscillator closestExcitation, exc_s2_oscillator closestExcitation) of
               (JNum a, JNum b) \<Rightarrow>
                 [\<lparr> twist_angle = twist_angle g,
                     ring_planarity = ring_planarity g,
                     frame_time_ps = frame_time_ps g,
                     frame_time_fs = frame_time_fs g,
                     frame_number = frame_number g,
                     corr_s1_oscillator = a,
                     corr_s2_oscillator = b,
                     s1_dominant = num_gt a b \<rparr>]
             | _ \<Rightarrow> [])
          else [])"

definition correlationData :: "geomFrame list \<Rightarrow> excFrame list \<Rightarrow> correlation list" where
  "correlationData geometryData excitationData =
     concat (map (correlate_frame excitationData) geometryData)"

text \<open>The result of \<^verbatim>\<open>findBestComparisonPair\<close>; \<open>None\<close> is \<^verbatim>\<open>null\<close>.\<close>

record comparisonPair =
  s1Frame :: "correlation option"
  s2Frame :: "correlation option"
  twistDifference :: "jsnum option"

text \<open>\<^verbatim>\<open>twistDiff < bestPair.twistDifference\<close>; a \<^verbatim>\<open>null\<close> operand would be
  converted to \<open>0\<close>.\<close>

definition lt_twistDifference :: "real \<Rightarrow> jsnum option \<Rightarrow> bool" where
  "lt_twistDifference twistDiff d =
     (case d of None \<Rightarrow> twistDiff < 0 | Some n \<Rightarrow> num_lt (Fin twistDiff) n)"

definition bestPair_step :: "correlation \<Rightarrow> correlation \<Rightarrow> comparisonPair \<Rightarrow> comparisonPair" where
  "bestPair_step s1 s2 bestPair =
     (let twistDiff = \<bar>twist_angle s1 - twist_angle s2\<bar>
      in if lt_twistDifference twistDiff (twistDifference bestPair)
         then \<lparr> s1Frame = Some s1, s2Frame = Some s2, twistDifference = Some (Fin twistDiff) \<rparr>
         else bestPair)"

definition findBestComparisonPair :: "correlation list \<Rightarrow> correlation list \<Rightarrow> comparisonPair" where
  "findBestComparisonPair s1Examples s2Examples =
     (if length s1Examples = 0 \<or> length s2Examples = 0
      then \<lparr> s1Frame = (if length s1Examples > 0 then Some (hd s1Examples) else None),
             s2Frame = (if length s2Examples > 0 then Some (hd s2Examples) else None),
             twistDifference = None \<rparr>
      else fold (\<lambda>s1. fold (\<lambda>s2. bestPair_step s1 s2) s2Examples) s1Examples
             \<lparr> s1Frame = None, s2Frame = None, twistDifference = Some PosInf \<rparr>)"

text \<open>An entry of \<^verbatim>\<open>binData\<close>, without the text label \<^verbatim>\<open>binRange\<close>.\<close>

record bin =
  binCenter :: real
  binStart :: real
  binEnd :: real
  totalCount :: nat
  s1DominantCount :: nat
  s2DominantCount :: nat
  s1Percentage :: real
  s2Percentage :: real
  avgPlanarity :: real
  exampleS1Frame :: "nat option"
  exampleS2Frame :: "nat option"
  s1TwistAngle :: "real option"
  s2TwistAngle :: "real option"
  twistAngleDifference :: "jsnum option"
  allFrames :: "correlation list"

text \<open>\<^verbatim>\<open>const binSize = 5; // 5 degree bins\<close>\<close>

definition binSize :: real where
  "binSize = 5"

text \<open>The body of the bin loop for index \<open>i\<close>: the entry pushed, if any.\<close>

definition make_bin :: "correlation list \<Rightarrow> real \<Rightarrow> nat \<Rightarrow> bin list" where
  "make_bin cs minTwist i =
     (let binStart' = minTwist + real i * binSize;
          binEnd' = binStart' + binSize;
          binCenter' = binStart' + binSize / 2;
          pointsInBin = filter (\<lambda>d. twist_angle d \<ge> binStart' \<and> twist_angle d < binEnd') cs
      in if length pointsInBin > 0 then
           let s1Count = length (filter s1_dominant pointsInBin);
               s2Count = length pointsInBin - s1Count;
               s1Examples = filter s1_dominant pointsInBin;
               s2Examples = filter (\<lambda>d. \<not> s1_dominant d) pointsInBin;
               pair = findBestComparisonPair s1Examples s2Examples
           in [\<lparr> binCenter = binCenter',
                  binStart = binStart',
                  binEnd = binEnd',
                  totalCount = length pointsInBin,
                  s1DominantCount = s1Count,
                  s2DominantCount = s2Count,
                  s1Percentage = (real s1Count / real (length pointsInBin)) * 100,
                  s2Percentage = (real s2Count / real (length pointsInBin)) * 100,
                  avgPlanarity = foldl (\<lambda>sum d. sum + ring_planarity d) 0 pointsInBin
                                   / real (length pointsInBin),
                  exampleS1Frame = map_option frame_number (s1Frame pair),
                  exampleS2Frame = map_option frame_number (s2Frame pair),
                  s1TwistAngle = map_option twist_angle (s1Frame pair),
                  s2TwistAngle = map_option twist_angle (s2Frame pair),
                  twistAngleDifference = twistDifference pair,
                  allFrames = pointsInBin \<rparr>]
         else [])"

text \<open>
  The bin loop. With no correlated frame \<^verbatim>\<open>Math.min()\<close> is \<^verbatim>\<open>Infinity\<close>,
  \<^verbatim>\<open>Math.max()\<close> is \<^verbatim>\<open>-Infinity\<close> and \<^verbatim>\<open>numBins\<close> is \<^verbatim>\<open>-Infinity\<close>,
  so the loop body never runs. Otherwise \<open>maxTwist - minTwist\<close> is not negative and
  \<^verbatim>\<open>numBins = Math.ceil((maxTwist - minTwist) / binSize)\<close> is a natural number.
\<close>

definition numBins :: "correlation list \<Rightarrow> nat" where
  "numBins cs =
     (let minTwist = Min (set (map twist_angle cs));
          maxTwist = Max (set (map twist_angle cs))
      in nat \<lceil>(maxTwist - minTwist) / binSize\<rceil>)"

definition binData :: "correlation list \<Rightarrow> bin list" where
  "binData cs =
     (if cs = [] then []
      else
        let minTwist = Min (set (map twist_angle cs))
        in concat (map (make_bin cs minTwist) [0 ..< numBins cs]))"

text \<open>\<^verbatim>\<open>createDMABNChart\<close> up to the bins it stores in
  \<^verbatim>\<open>window.dmabnCharts.binData\<close>; without excitation data it returns before
  building anything (\<open>None\<close>).\<close>

definition createDMABNChart :: "geomFrame list \<Rightarrow> excFrame list \<Rightarrow> bin list option" where
  "createDMABNChart geometryData excitationData =
     (if length excitationData = 0 then None
      else Some (binData (correlationData geometryData excitationData)))"

section \<open>Auxiliary notions for the proofs\<close>

text \<open>A sample as it is loaded: none of the properties that only the interpolation
  writes.\<close>

definition loaded :: "real \<Rightarrow> real \<Rightarrow> real \<Rightarrow> real \<Rightarrow> real \<Rightarrow> excitation" where
  "loaded t e1 f1 e2 f2 =
     \<lparr> time_fs = t, time_ps = None, s1_energy = e1, s1_oscillator = f1,
        s2_energy = e2, s2_oscillator = f2, energy_gap = None, interpolated = None \<rparr>"

text \<open>Test data: a geometry frame, and the entry of \<^verbatim>\<open>correlationData\<close> it
  yields with a sample of oscillator strengths 0.1 and 0.4 (0.4 and 0.1 when labelled).\<close>

definition frame :: "real \<Rightarrow> real \<Rightarrow> nat \<Rightarrow> geomFrame" where
  "frame a t n = \<lparr> twist_angle = a, ring_planarity = 0, frame_time_ps = t / 1000,
      frame_time_fs = t, frame_number = n \<rparr>"

definition entry :: "real \<Rightarrow> real \<Rightarrow> nat \<Rightarrow> bool \<Rightarrow> correlation" where
  "entry a t n label = \<lparr> twist_angle = a, ring_planarity = 0, frame_time_ps = t / 1000,
      frame_time_fs = t, frame_number = n,
      corr_s1_oscillator = Fin (if label then 0.4 else 0.1),
      corr_s2_oscillator = Fin (if label then 0.1 else 0.4), s1_dominant = label \<rparr>"

text \<open>The invariant of the search loop of \<^verbatim>\<open>findBestComparisonPair\<close> after the
  pairs \<open>S\<close> have been compared.\<close>

definition minimal_pair :: "(correlation \<times> correlation) set \<Rightarrow> comparisonPair \<Rightarrow> bool" where
  "minimal_pair S best \<longleftrightarrow>
     (S = {} \<and> best = \<lparr> s1Frame = None, s2Frame = None, twistDifference = Some PosInf \<rparr>) \<or>
     (\<exists>a b. (a, b) \<in> S \<and>
        best = \<lparr> s1Frame = Some a, s2Frame = Some b,
                 twistDifference = Some (Fin \<bar>twist_angle a - twist_angle b\<bar>) \<rparr> \<and>
        (\<forall>(x, y) \<in> S. \<bar>twist_angle a - twist_angle b\<bar> \<le> \<bar>twist_angle x - twist_angle y\<bar>))"

section \<open>Bond inference: results\<close>

lemma createBonds_inner_mem:
  "(a, b) \<in> set (createBonds_inner atoms coords i) \<longleftrightarrow>
     a = i \<and> i < b \<and> b < length coords \<and>
     calculateDistance (coords ! i) (coords ! b) < maxDistance atoms i b"
  by (auto simp: createBonds_inner_def)

lemma createBonds_mem:
  "(i, j) \<in> set (createBonds atoms coords) \<longleftrightarrow>
     i < j \<and> j < length coords \<and>
     calculateDistance (coords ! i) (coords ! j) < maxDistance atoms i j"
  by (auto simp: createBonds_def createBonds_inner_mem)

lemma createBonds_small:
  "length coords \<le> 1 \<Longrightarrow> createBonds atoms coords = []"
  by (cases coords) (auto simp: createBonds_def createBonds_inner_def)

lemma sqrt_less_iff_square:
  "0 \<le> d \<Longrightarrow> sqrt x < d \<longleftrightarrow> x < d\<^sup>2"
  by (metis real_sqrt_less_iff real_sqrt_abs abs_of_nonneg)

lemma calculateDistance_euclidean:
  "calculateDistance (x1, y1, z1) (x2, y2, z2)
     = sqrt ((x1 - x2)\<^sup>2 + (y1 - y2)\<^sup>2 + (z1 - z2)\<^sup>2)"
  by (simp add: power2_eq_square Let_def)

lemma createBonds_euclidean:
  "(i, j) \<in> set (createBonds atoms coords) \<longleftrightarrow>
     i < j \<and> j < length coords \<and>
     (case (coords ! i, coords ! j) of
        ((x1, y1, z1), (x2, y2, z2)) \<Rightarrow>
          sqrt ((x1 - x2)\<^sup>2 + (y1 - y2)\<^sup>2 + (z1 - z2)\<^sup>2))
       < maxDistance atoms i j"
proof -
  obtain x1 y1 z1 where ci: "coords ! i = (x1, y1, z1)" by (cases "coords ! i")
  obtain x2 y2 z2 where cj: "coords ! j = (x2, y2, z2)" by (cases "coords ! j")
  show ?thesis
    unfolding createBonds_mem ci cj calculateDistance_euclidean by simp
qed

text \<open>
  C9. For an atom list and a coordinate list of equal length, \<^verbatim>\<open>createBonds\<close>
  reports the pair \<open>(i, j)\<close>, \<open>i < j\<close>, exactly when the Euclidean distance
  \<open>sqrt ((x\<^sub>1 - x\<^sub>2)\<^sup>2 + (y\<^sub>1 - y\<^sub>2)\<^sup>2 + (z\<^sub>1 - z\<^sub>2)\<^sup>2)\<close> of the two
  coordinates is below the threshold, which is the hydrogen threshold 1.2 when either
  atom is \<^verbatim>\<open>'H'\<close> and the default 1.8 otherwise; with no atom or a single atom the
  bond list is empty.
\<close>

theorem createBonds_iff_distance_below_threshold:
  assumes "length atoms = length coords"
  shows "((i, j) \<in> set (createBonds atoms coords) \<longleftrightarrow>
            i < j \<and> j < length coords \<and>
            (case (coords ! i, coords ! j) of
               ((x1, y1, z1), (x2, y2, z2)) \<Rightarrow>
                 sqrt ((x1 - x2)\<^sup>2 + (y1 - y2)\<^sup>2 + (z1 - z2)\<^sup>2))
              < (if atoms ! i = ''H'' \<or> atoms ! j = ''H'' then 1.2 else 1.8))
         \<and> (length coords \<le> 1 \<longrightarrow> createBonds atoms coords = [])"
proof -
  have "maxDistance atoms i j = (if atoms ! i = ''H'' \<or> atoms ! j = ''H'' then 1.2 else 1.8)"
    if "i < j" "j < length coords"
    using that assms
    by (simp add: maxDistance_def atom_at_def maxBondDistances_H_def maxBondDistances_default_def)
  then show ?thesis
    using createBonds_euclidean [of i j atoms coords] createBonds_small [of coords atoms]
    by auto
qed

theorem createBonds_iff_distance_below_threshold_witness:
  "length [''C'', ''H'', ''O'', ''C'']
     = length [(0, 0, 0), (0, 0, 1), (0, 1.3, 0), (1, 0, 2) :: coord]
   \<and> (0, 1) \<in> set (createBonds [''C'', ''H'', ''O'', ''C''] [(0, 0, 0), (0, 0, 1), (0, 1.3, 0), (1, 0, 2)])
   \<and> (0, 2) \<in> set (createBonds [''C'', ''H'', ''O'', ''C''] [(0, 0, 0), (0, 0, 1), (0, 1.3, 0), (1, 0, 2)])
   \<and> (1, 2) \<notin> set (createBonds [''C'', ''H'', ''O'', ''C''] [(0, 0, 0), (0, 0, 1), (0, 1.3, 0), (1, 0, 2)])
   \<and> (0, 3) \<notin> set (createBonds [''C'', ''H'', ''O'', ''C''] [(0, 0, 0), (0, 0, 1), (0, 1.3, 0), (1, 0, 2)])
   \<and> (1, 0) \<notin> set (createBonds [''C'', ''H'', ''O'', ''C''] [(0, 0, 0), (0, 0, 1), (0, 1.3, 0), (1, 0, 2)])
   \<and> createBonds [''C''] [(0, 0, 0)] = []"
proof -
  let ?a = "[''C'', ''H'', ''O'', ''C'']"
  let ?c = "[(0, 0, 0), (0, 0, 1), (0, 1.3, 0), (1, 0, 2) :: coord]"
  have len: "length ?a = length ?c" by simp
  have d01: "sqrt ((0 - 0)\<^sup>2 + (0 - 0)\<^sup>2 + (0 - 1)\<^sup>2) < (1.2 :: real)"
    by (simp only: sqrt_less_iff_square) (simp add: power2_eq_square)
  have d02: "sqrt ((0 - 0)\<^sup>2 + (0 - 1.3)\<^sup>2 + (0 - 0)\<^sup>2) < (1.8 :: real)"
    by (simp only: sqrt_less_iff_square) (simp add: power2_eq_square)
  have d12: "\<not> sqrt ((0 - 0)\<^sup>2 + (0 - 1.3)\<^sup>2 + (1 - 0)\<^sup>2) < (1.2 :: real)"
    by (simp only: sqrt_less_iff_square) (simp add: power2_eq_square)
  have d03: "\<not> sqrt ((0 - 1)\<^sup>2 + (0 - 0)\<^sup>2 + (0 - 2)\<^sup>2) < (1.8 :: real)"
    by (simp only: sqrt_less_iff_square) (simp add: power2_eq_square)
  have "(0, 1) \<in> set (createBonds ?a ?c)"
    using createBonds_iff_distance_below_threshold [OF len, of 0 1] d01 by simp
  moreover have "(0, 2) \<in> set (createBonds ?a ?c)"
    using createBonds_iff_distance_below_threshold [OF len, of 0 2] d02 by simp
  moreover have "(1, 2) \<notin> set (createBonds ?a ?c)"
    using createBonds_iff_distance_below_threshold [OF len, of 1 2] d12 by simp
  moreover have "(0, 3) \<notin> set (createBonds ?a ?c)"
    using createBonds_iff_distance_below_threshold [OF len, of 0 3] d03 by simp
  moreover have "(1, 0) \<notin> set (createBonds ?a ?c)"
    using createBonds_iff_distance_below_threshold [OF len, of 1 0] by simp
  moreover have "createBonds [''C''] [(0, 0, 0)] = []"
    using createBonds_iff_distance_below_threshold [of "[''C'']" "[(0, 0, 0)]" 0 0]
    by simp
  ultimately show ?thesis by simp
qed

text \<open>
  C10 (as stated). That bond inference fails with a DataShapeError when the atom count
  differs from the coordinate count does not hold for the code: with one atom symbol
  and two coordinates one unit apart, \<^verbatim>\<open>createBonds\<close> returns the bond \<open>(0, 1)\<close>.
\<close>

theorem createBonds_mismatch_counterexample:
  "length [''C''] \<noteq> length [(0, 0, 0), (1, 0, 0) :: coord]
   \<and> createBonds [''C''] [(0, 0, 0), (1, 0, 0)] = [(0, 1)]"
  by (simp add: createBonds_def createBonds_inner_def maxDistance_def atom_at_def
        maxBondDistances_H_def maxBondDistances_default_def upt_rec)

text \<open>
  C10 (amended). When the atom count differs from the coordinate count,
  \<^verbatim>\<open>createBonds\<close> does not fail: it reports the pair \<open>(i, j)\<close>, \<open>i < j\<close>, of
  coordinate indices exactly when the Euclidean distance of the two coordinates is below
  the threshold, where an index without an atom symbol counts as not hydrogen and atom
  symbols beyond the coordinates are never read.
\<close>

theorem createBonds_mismatch_no_failure:
  assumes "length atoms \<noteq> length coords"
  shows "(i, j) \<in> set (createBonds atoms coords) \<longleftrightarrow>
            i < j \<and> j < length coords \<and>
            (case (coords ! i, coords ! j) of
               ((x1, y1, z1), (x2, y2, z2)) \<Rightarrow>
                 sqrt ((x1 - x2)\<^sup>2 + (y1 - y2)\<^sup>2 + (z1 - z2)\<^sup>2))
              < (if atom_at atoms i = Some ''H'' \<or> atom_at atoms j = Some ''H''
                 then 1.2 else 1.8)"
  using createBonds_euclidean [of i j atoms coords]
  by (simp add: maxDistance_def maxBondDistances_H_def maxBondDistances_default_def)

theorem createBonds_mismatch_no_failure_witness:
  "length [''C''] \<noteq> length [(0, 0, 0), (1, 0, 1), (1, 0, 3) :: coord]
   \<and> (0, 1) \<in> set (createBonds [''C''] [(0, 0, 0), (1, 0, 1), (1, 0, 3)])
   \<and> (0, 2) \<notin> set (createBonds [''C''] [(0, 0, 0), (1, 0, 1), (1, 0, 3)])
   \<and> (1, 2) \<notin> set (createBonds [''C''] [(0, 0, 0), (1, 0, 1), (1, 0, 3)])
   \<and> atom_at [''C''] 1 = None
   \<and> length [''H'', ''C'', ''H''] \<noteq> length [(0, 0, 0), (0, 0, 1.5) :: coord]
   \<and> (0, 1) \<notin> set (createBonds [''H'', ''C'', ''H''] [(0, 0, 0), (0, 0, 1.5)])"
proof -
  let ?c = "[(0, 0, 0), (1, 0, 1), (1, 0, 3) :: coord]"
  have ne: "length [''C''] \<noteq> length ?c" by simp
  have ne2: "length [''H'', ''C'', ''H''] \<noteq> length [(0, 0, 0), (0, 0, 1.5) :: coord]" by simp
  have d01: "sqrt ((0 - 1)\<^sup>2 + (0 - 0)\<^sup>2 + (0 - 1)\<^sup>2) < (1.8 :: real)"
    by (simp only: sqrt_less_iff_square) (simp add: power2_eq_square)
  have d02: "\<not> sqrt ((0 - 1)\<^sup>2 + (0 - 0)\<^sup>2 + (0 - 3)\<^sup>2) < (1.8 :: real)"
    by (simp only: sqrt_less_iff_square) (simp add: power2_eq_square)
  have d12: "\<not> sqrt ((1 - 1)\<^sup>2 + (0 - 0)\<^sup>2 + (1 - 3)\<^sup>2) < (1.8 :: real)"
    by (simp only: sqrt_less_iff_square) (simp add: power2_eq_square)
  have e01: "\<not> sqrt ((0 - 0)\<^sup>2 + (0 - 0)\<^sup>2 + (0 - 1.5)\<^sup>2) < (1.2 :: real)"
    by (simp only: sqrt_less_iff_square) (simp add: power2_eq_square)
  have "(0, 1) \<in> set (createBonds [''C''] ?c)"
    using createBonds_mismatch_no_failure [OF ne, of 0 1] d01 by (simp add: atom_at_def)
  moreover have "(0, 2) \<notin> set (createBonds [''C''] ?c)"
    using createBonds_mismatch_no_failure [OF ne, of 0 2] d02 by (simp add: atom_at_def)
  moreover have "(1, 2) \<notin> set (createBonds [''C''] ?c)"
    using createBonds_mismatch_no_failure [OF ne, of 1 2] d12 by (simp add: atom_at_def)
  moreover have "(0, 1) \<notin> set (createBonds [''H'', ''C'', ''H''] [(0, 0, 0), (0, 0, 1.5)])"
    using createBonds_mismatch_no_failure [OF ne2, of 0 1] e01 by (simp add: atom_at_def)
  ultimately show ?thesis by (simp add: atom_at_def)
qed

section \<open>Spectrum synthesis: results\<close>

lemma generateSpectrum_nth:
  "i < length energyRange \<Longrightarrow>
   generateSpectrum energyRange ex ! i = intensity_at ex (energyRange ! i)"
  by (simp add: generateSpectrum_def)

text \<open>
  C8. For every energy of the axis \<^verbatim>\<open>generateSpectrum\<close> returns the sum over the two transitions of \<open>oscillator * exp (- (E - energy)\<^sup>2 / (2 * width\<^sup>2))\<close> with \<open>width = 0.15\<close>, where a transition whose oscillator strength is not positive contributes zero; if both oscillator strengths are zero every intensity is zero, and with a single active transition the result is that transition's Gaussian at every point.
\<close>

theorem generateSpectrum_gaussian_sum:
  "generateSpectrum energyRange ex =
     map (\<lambda>E. (if s1_oscillator ex > 0
                then s1_oscillator ex * exp (- ((E - s1_energy ex)\<^sup>2) / (2 * 0.15\<^sup>2)) else 0)
             + (if s2_oscillator ex > 0
                then s2_oscillator ex * exp (- ((E - s2_energy ex)\<^sup>2) / (2 * 0.15\<^sup>2)) else 0))
         energyRange
   \<and> (s1_oscillator ex = 0 \<and> s2_oscillator ex = 0 \<longrightarrow>
        generateSpectrum energyRange ex = replicate (length energyRange) 0)
   \<and> (s1_oscillator ex > 0 \<and> s2_oscillator ex \<le> 0 \<longrightarrow>
        generateSpectrum energyRange ex =
          map (\<lambda>E. s1_oscillator ex * exp (- ((E - s1_energy ex)\<^sup>2) / (2 * 0.15\<^sup>2))) energyRange)
   \<and> (s1_oscillator ex \<le> 0 \<and> s2_oscillator ex > 0 \<longrightarrow>
        generateSpectrum energyRange ex =
          map (\<lambda>E. s2_oscillator ex * exp (- ((E - s2_energy ex)\<^sup>2) / (2 * 0.15\<^sup>2))) energyRange)"
proof -
  have point: "intensity_at ex E =
      (if s1_oscillator ex > 0
       then s1_oscillator ex * exp (- ((E - s1_energy ex)\<^sup>2) / (2 * 0.15\<^sup>2)) else 0)
    + (if s2_oscillator ex > 0
       then s2_oscillator ex * exp (- ((E - s2_energy ex)\<^sup>2) / (2 * 0.15\<^sup>2)) else 0)" for E
    by (simp add: intensity_at_def width_def power2_eq_square Let_def)
  have sum: "generateSpectrum energyRange ex =
     map (\<lambda>E. (if s1_oscillator ex > 0
                then s1_oscillator ex * exp (- ((E - s1_energy ex)\<^sup>2) / (2 * 0.15\<^sup>2)) else 0)
             + (if s2_oscillator ex > 0
                then s2_oscillator ex * exp (- ((E - s2_energy ex)\<^sup>2) / (2 * 0.15\<^sup>2)) else 0))
         energyRange"
    unfolding generateSpectrum_def by (rule map_cong [OF refl]) (rule point)
  have zero: "generateSpectrum energyRange ex = replicate (length energyRange) 0"
    if "s1_oscillator ex = 0 \<and> s2_oscillator ex = 0"
    using that by (simp add: sum map_replicate_const)
  have only1: "generateSpectrum energyRange ex =
          map (\<lambda>E. s1_oscillator ex * exp (- ((E - s1_energy ex)\<^sup>2) / (2 * 0.15\<^sup>2))) energyRange"
    if "s1_oscillator ex > 0 \<and> s2_oscillator ex \<le> 0"
    using that by (simp add: sum)
  have only2: "generateSpectrum energyRange ex =
          map (\<lambda>E. s2_oscillator ex * exp (- ((E - s2_energy ex)\<^sup>2) / (2 * 0.15\<^sup>2))) energyRange"
    if "s1_oscillator ex \<le> 0 \<and> s2_oscillator ex > 0"
    using that by (simp add: sum)
  from sum zero only1 only2 show ?thesis by blast
qed

theorem generateSpectrum_gaussian_sum_witness:
  "generateSpectrum [4, 5] (loaded 0 4 0.5 5 0) = [0.5, 0.5 * exp (- 1 / (2 * 0.15\<^sup>2))]
   \<and> generateSpectrum [4, 5] (loaded 0 4 0 5 0) = [0, 0]"
proof -
  have a: "s1_oscillator (loaded 0 4 0.5 5 0) > 0 \<and> s2_oscillator (loaded 0 4 0.5 5 0) \<le> 0"
    by (simp add: loaded_def)
  have b: "s1_oscillator (loaded 0 4 0 5 0) = 0 \<and> s2_oscillator (loaded 0 4 0 5 0) = 0"
    by (simp add: loaded_def)
  show ?thesis
    using generateSpectrum_gaussian_sum [of "[4, 5]" "loaded 0 4 0.5 5 0"]
          generateSpectrum_gaussian_sum [of "[4, 5]" "loaded 0 4 0 5 0"] a b
    by (simp add: loaded_def)
qed

section \<open>Display ceiling: results\<close>

lemma energyRange_length: "length (generateEnergyRange minE maxE steps) = steps"
  by (simp add: generateEnergyRange_def Let_def)

lemma spectrum_nonempty:
  "set (generateSpectrum (generateEnergyRange 2 7 1000) e) \<noteq> {}"
proof -
  have "length (generateSpectrum (generateEnergyRange 2 7 1000) e) = 1000"
    by (simp add: generateSpectrum_def energyRange_length)
  then show ?thesis by auto
qed

lemma yAxis_step_eq:
  "yAxis_step e (a, b) =
     (max (max a (s1_oscillator e)) (s2_oscillator e),
      max b (Max (set (generateSpectrum (generateEnergyRange 2 7 1000) e))))"
  by (simp add: yAxis_step_def or_zero_def Let_def)

lemma fold_yAxis_ge:
  assumes "fold yAxis_step xs (a, b) = (A, B)"
  shows "a \<le> A \<and> b \<le> B \<and>
         (\<forall>e \<in> set xs. s1_oscillator e \<le> A \<and> s2_oscillator e \<le> A \<and>
            (\<forall>v \<in> set (generateSpectrum (generateEnergyRange 2 7 1000) e). v \<le> B))"
  using assms
proof (induction xs arbitrary: a b)
  case Nil
  then show ?case by simp
next
  case (Cons e xs)
  let ?S = "set (generateSpectrum (generateEnergyRange 2 7 1000) e)"
  let ?a = "max (max a (s1_oscillator e)) (s2_oscillator e)"
  let ?b = "max b (Max ?S)"
  from Cons.prems have "fold yAxis_step xs (?a, ?b) = (A, B)"
    by (simp add: yAxis_step_eq)
  from Cons.IH [OF this]
  have ih: "?a \<le> A" "?b \<le> B"
    "\<forall>e \<in> set xs. s1_oscillator e \<le> A \<and> s2_oscillator e \<le> A \<and>
            (\<forall>v \<in> set (generateSpectrum (generateEnergyRange 2 7 1000) e). v \<le> B)"
    by blast+
  from ih(2) have mb: "Max ?S \<le> B" by simp
  have "\<forall>v \<in> ?S. v \<le> B"
  proof
    fix v assume "v \<in> ?S"
    then have "v \<le> Max ?S" by simp
    with mb show "v \<le> B" by linarith
  qed
  with ih show ?case by auto
qed

lemma fold_yAxis_mem:
  assumes "fold yAxis_step xs (a, b) = (A, B)"
  shows "(A = a \<or> (\<exists>e \<in> set xs. A = s1_oscillator e \<or> A = s2_oscillator e)) \<and>
         (B = b \<or> (\<exists>e \<in> set xs. B \<in> set (generateSpectrum (generateEnergyRange 2 7 1000) e)))"
  using assms
proof (induction xs arbitrary: a b)
  case Nil
  then show ?case by simp
next
  case (Cons e xs)
  let ?S = "set (generateSpectrum (generateEnergyRange 2 7 1000) e)"
  let ?a = "max (max a (s1_oscillator e)) (s2_oscillator e)"
  let ?b = "max b (Max ?S)"
  from Cons.prems have "fold yAxis_step xs (?a, ?b) = (A, B)"
    by (simp add: yAxis_step_eq)
  from Cons.IH [OF this]
  have ih: "A = ?a \<or> (\<exists>e \<in> set xs. A = s1_oscillator e \<or> A = s2_oscillator e)"
    "B = ?b \<or> (\<exists>e \<in> set xs. B \<in> set (generateSpectrum (generateEnergyRange 2 7 1000) e))"
    by blast+
  have "Max ?S \<in> ?S" using spectrum_nonempty [of e] by simp
  then have b: "?b = b \<or> ?b \<in> ?S" by (auto simp: max_def)
  have a: "?a = a \<or> ?a = s1_oscillator e \<or> ?a = s2_oscillator e" by (auto simp: max_def)
  from ih(1) a have "A = a \<or> (\<exists>e \<in> set (e # xs). A = s1_oscillator e \<or> A = s2_oscillator e)"
    by auto
  moreover from ih(2) b
  have "B = b \<or> (\<exists>e \<in> set (e # xs). B \<in> set (generateSpectrum (generateEnergyRange 2 7 1000) e))"
    by auto
  ultimately show ?case by blast
qed

lemma observed_values_set:
  "set (observed_values xs) =
     (\<Union>e \<in> set xs. insert (s1_oscillator e) (insert (s2_oscillator e)
         (set (generateSpectrum (generateEnergyRange 2 7 1000) e))))"
  by (auto simp: observed_values_def)

lemma dataMax_eq:
  assumes "xs \<noteq> []" "fold yAxis_step xs (0, 0) = (A, B)"
  shows "max A B = max 0 (observed_maximum xs)"
proof -
  let ?V = "set (observed_values xs)"
  have fin: "finite ?V" by simp
  from assms(1) obtain e where e: "e \<in> set xs" by (cases xs) auto
  then have ne: "?V \<noteq> {}" by (auto simp: observed_values_set)
  from fold_yAxis_ge [OF assms(2)]
  have ge: "0 \<le> A" "0 \<le> B" "\<forall>v \<in> ?V. v \<le> max A B"
    by (auto simp: observed_values_set le_max_iff_disj)
  from fold_yAxis_mem [OF assms(2)]
  have "max A B = 0 \<or> max A B \<in> ?V"
    by (auto simp: observed_values_set max_def)
  then have le: "max A B \<le> max 0 (Max ?V)"
  proof
    assume "max A B = 0" then show ?thesis by simp
  next
    assume "max A B \<in> ?V"
    with fin have "max A B \<le> Max ?V" by (rule Max_ge)
    then show ?thesis by (simp only: le_max_iff_disj) blast
  qed
  have "Max ?V \<le> max A B" using ge(3) Max_le_iff [OF fin ne, of "max A B"] by blast
  moreover from ge(1) have "0 \<le> max A B" by (simp add: le_max_iff_disj)
  ultimately have "max 0 (Max ?V) \<le> max A B" by (rule_tac max.boundedI)
  with le have "max A B = max 0 (Max ?V)" by (rule antisym)
  then show ?thesis by (simp only: observed_maximum_def)
qed
text \<open>
  C5. For a non-empty excitation series the ceiling computed by \<^verbatim>\<open>calculateGlobalYAxisMax\<close> is at least 1.2 times the observed maximum (the largest of all oscillator values and all values of the spectra synthesized for the samples over the 1000-point energy range), and it is one of 0.1, 0.5, 1, 2, 5 and the ceiling of 1.2 times that maximum; in particular it bounds 1.2 times each oscillator value and each spectrum value. For an empty series it is the default 2.
\<close>

theorem calculateGlobalYAxisMax_ceiling:
  "(excitationData \<noteq> [] \<longrightarrow>
       1.2 * observed_maximum excitationData \<le> calculateGlobalYAxisMax excitationData
     \<and> calculateGlobalYAxisMax excitationData
         \<in> {0.1, 0.5, 1, 2, 5, of_int \<lceil>1.2 * observed_maximum excitationData\<rceil>})
   \<and> (\<forall>e \<in> set excitationData.
         1.2 * s1_oscillator e \<le> calculateGlobalYAxisMax excitationData \<and>
         1.2 * s2_oscillator e \<le> calculateGlobalYAxisMax excitationData \<and>
         (\<forall>E \<in> set (generateEnergyRange 2 7 1000).
            1.2 * intensity_at e E \<le> calculateGlobalYAxisMax excitationData))
   \<and> (excitationData = [] \<longrightarrow> calculateGlobalYAxisMax excitationData = 2)"
proof -
  let ?r = "calculateGlobalYAxisMax excitationData"
  have empty: "excitationData = [] \<longrightarrow> ?r = 2"
    by (simp add: calculateGlobalYAxisMax_def)
  let ?M = "observed_maximum excitationData"
  have main: "1.2 * ?M \<le> ?r \<and> ?r \<in> {0.1, 0.5, 1, 2, 5, of_int \<lceil>1.2 * ?M\<rceil>}"
    if ne: "excitationData \<noteq> []"
  proof -
    obtain A B where AB: "fold yAxis_step excitationData (0, 0) = (A, B)"
      by (cases "fold yAxis_step excitationData (0, 0)")
    define p where "p = max A B * 1.2"
    have dm: "max A B = max 0 ?M" using dataMax_eq [OF ne AB] .
    have r: "?r = (if p \<le> 0.1 then 0.1
              else if p \<le> 0.5 then 0.5
              else if p \<le> 1 then 1
              else if p \<le> 2 then 2
              else if p \<le> 5 then 5
              else of_int \<lceil>p\<rceil>)"
      using ne AB by (simp add: calculateGlobalYAxisMax_def Let_def p_def)
    have pr: "p \<le> ?r"
      unfolding r using le_of_int_ceiling [of p] by auto
    have "1.2 * ?M \<le> p" using dm by (simp add: p_def max_def split: if_splits)
    with pr have bound: "1.2 * ?M \<le> ?r" by linarith
    have mem: "?r \<in> {0.1, 0.5, 1, 2, 5, of_int \<lceil>1.2 * ?M\<rceil>}"
    proof (cases "p \<le> 5")
      case True
      then show ?thesis unfolding r by simp
    next
      case False
      then have "0 < max A B" by (simp add: p_def)
      with dm have "max A B = ?M" by (simp add: max_def split: if_splits)
      then have "p = 1.2 * ?M" by (simp add: p_def)
      moreover from False have "?r = of_int \<lceil>p\<rceil>" unfolding r by simp
      ultimately have "?r = of_int \<lceil>1.2 * ?M\<rceil>" by (simp only:)
      then show ?thesis by blast
    qed
    from bound mem show ?thesis by blast
  qed
  have each: "1.2 * s1_oscillator e \<le> ?r \<and> 1.2 * s2_oscillator e \<le> ?r \<and>
         (\<forall>E \<in> set (generateEnergyRange 2 7 1000). 1.2 * intensity_at e E \<le> ?r)"
    if e: "e \<in> set excitationData" for e
  proof -
    from e have ne: "excitationData \<noteq> []" by auto
    let ?V = "set (observed_values excitationData)"
    have le: "v \<le> ?M" if "v \<in> ?V" for v
      using that by (simp add: observed_maximum_def)
    have "s1_oscillator e \<in> ?V" "s2_oscillator e \<in> ?V"
      using e by (auto simp: observed_values_set)
    moreover have "intensity_at e E \<in> ?V" if "E \<in> set (generateEnergyRange 2 7 1000)" for E
      using e that by (auto simp: observed_values_set generateSpectrum_def)
    ultimately have vs: "s1_oscillator e \<le> ?M" "s2_oscillator e \<le> ?M"
      "\<And>E. E \<in> set (generateEnergyRange 2 7 1000) \<Longrightarrow> intensity_at e E \<le> ?M"
      using le by blast+
    from main [OF ne] have b: "1.2 * ?M \<le> ?r" by (rule conjunct1)
    have up: "1.2 * v \<le> ?r" if "v \<le> ?M" for v
      using that b by linarith
    show ?thesis
      using up [OF vs(1)] up [OF vs(2)] up [OF vs(3)] by blast
  qed
  from main each empty show ?thesis by blast
qed

theorem calculateGlobalYAxisMax_ceiling_witness:
  "[loaded 0 4 0.5 5 0.2] \<noteq> []
   \<and> 1.2 * observed_maximum [loaded 0 4 0.5 5 0.2] \<le> calculateGlobalYAxisMax [loaded 0 4 0.5 5 0.2]
   \<and> 0.6 \<le> calculateGlobalYAxisMax [loaded 0 4 0.5 5 0.2]
   \<and> calculateGlobalYAxisMax [loaded 0 4 0.5 5 0.2]
         \<in> {0.1, 0.5, 1, 2, 5, of_int \<lceil>1.2 * observed_maximum [loaded 0 4 0.5 5 0.2]\<rceil>}"
proof -
  have ne: "[loaded 0 4 0.5 5 0.2] \<noteq> []" by simp
  have mem: "loaded 0 4 0.5 5 0.2 \<in> set [loaded 0 4 0.5 5 0.2]" by simp
  have s1: "s1_oscillator (loaded 0 4 0.5 5 0.2) = 0.5" by (simp add: loaded_def)
  from calculateGlobalYAxisMax_ceiling [of "[loaded 0 4 0.5 5 0.2]"] ne mem
  have "1.2 * observed_maximum [loaded 0 4 0.5 5 0.2] \<le> calculateGlobalYAxisMax [loaded 0 4 0.5 5 0.2]"
    and "calculateGlobalYAxisMax [loaded 0 4 0.5 5 0.2]
         \<in> {0.1, 0.5, 1, 2, 5, of_int \<lceil>1.2 * observed_maximum [loaded 0 4 0.5 5 0.2]\<rceil>}"
    and "1.2 * s1_oscillator (loaded 0 4 0.5 5 0.2) \<le> calculateGlobalYAxisMax [loaded 0 4 0.5 5 0.2]"
    by blast+
  with ne s1 show ?thesis by simp
qed

section \<open>Sample lookup: results\<close>

lemma surrounding_bracket:
  assumes "sorted_wrt (<) (map time_fs xs)" "Suc i < length xs"
    "time_fs (xs ! i) < t" "t < time_fs (xs ! Suc i)"
  shows "surrounding xs t = Some (xs ! i, xs ! Suc i)"
  using assms
proof (induction xs t arbitrary: i rule: surrounding.induct)
  case (1 before after rest t)
  show ?case
  proof (cases i)
    case 0
    with "1.prems" show ?thesis by simp
  next
    case (Suc k)
    have "time_fs after \<le> time_fs ((before # after # rest) ! i)"
      using "1.prems"(1,2) Suc by (cases k) (auto simp: less_imp_le)
    then have nb: "\<not> (time_fs before \<le> t \<and> time_fs after \<ge> t)"
      using "1.prems"(3) by simp
    have "surrounding (after # rest) t = Some ((after # rest) ! k, (after # rest) ! Suc k)"
      using "1.IH" [OF nb, of k] "1.prems" Suc by simp
    moreover have "surrounding (before # after # rest) t = surrounding (after # rest) t"
      using nb by auto
    ultimately show ?thesis using Suc by simp
  qed
qed simp_all

lemma sorted_first_le:
  "sorted_wrt (<) (map time_fs xs) \<Longrightarrow> i < length xs \<Longrightarrow> time_fs (hd xs) \<le> time_fs (xs ! i)"
  by (cases xs; cases i) (auto simp: less_imp_le)

lemma sorted_last_ge:
  assumes "sorted_wrt (<) (map time_fs xs)" "i < length xs"
  shows "time_fs (xs ! i) \<le> time_fs (last xs)"
proof -
  have xs: "xs \<noteq> []" using assms(2) by auto
  have s: "sorted (map time_fs xs)"
    using assms(1) by (simp add: sorted_wrt_mono_rel [of _ "(<)" "(\<le>)"] )
  have "map time_fs xs ! i \<le> map time_fs xs ! (length xs - 1)"
    using s assms(2) by (intro sorted_nth_mono) auto
  then show ?thesis using xs assms(2) by (simp add: last_conv_nth)
qed
text \<open>
  C4. With strictly increasing sample times and a query time \<open>t\<close> strictly between two consecutive samples, \<^verbatim>\<open>findClosestExcitationData\<close> returns a new sample at time \<open>t\<close> whose two energies and two oscillator strengths are each the linear interpolation of the surrounding values with the fraction \<open>f = (t - t\<^sub>i) / (t\<^sub>i\<^sub>+\<^sub>1 - t\<^sub>i)\<close>, \<open>0 < f < 1\<close>, whose energy gap is the difference of the interpolated energies, and which is flagged as interpolated. For samples at 0, 100, 200, 300, 400 fs with oscillator strengths 0.1, 0.3, 0.5, 0.2, 0.05 and 0.4, 0.2, 0.1, 0.3, 0.5 (any energies) the query at 150 fs gives 0.4 and 0.15, so the first state dominates.
\<close>

theorem findClosestExcitationData_linear_interpolation:
  "(sorted_wrt (<) (map time_fs xs) \<and> Suc i < length xs \<and>
      time_fs (xs ! i) < t \<and> t < time_fs (xs ! Suc i) \<longrightarrow>
      (let before = xs ! i; after = xs ! Suc i;
           f = (t - time_fs before) / (time_fs after - time_fs before);
           e1 = s1_energy before + f * (s1_energy after - s1_energy before);
           f1 = s1_oscillator before + f * (s1_oscillator after - s1_oscillator before);
           e2 = s2_energy before + f * (s2_energy after - s2_energy before);
           f2 = s2_oscillator before + f * (s2_oscillator after - s2_oscillator before)
       in 0 < f \<and> f < 1 \<and>
          findClosestExcitationData xs t =
            Sample \<lparr> time_fs = t, time_ps = Some (t / 1000),
                      s1_energy = e1, s1_oscillator = f1, s2_energy = e2, s2_oscillator = f2,
                      energy_gap = Some (e2 - e1), interpolated = Some True \<rparr>))
   \<and> (\<exists>r. findClosestExcitationData
             [loaded 0 a0 0.1 b0 0.4, loaded 100 a1 0.3 b1 0.2, loaded 200 a2 0.5 b2 0.1,
              loaded 300 a3 0.2 b3 0.3, loaded 400 a4 0.05 b4 0.5] 150 = Sample r
          \<and> s1_oscillator r = 0.4 \<and> s2_oscillator r = 0.15
          \<and> s1_oscillator r > s2_oscillator r \<and> interpolated r = Some True)"
proof (intro conjI impI)
  assume h: "sorted_wrt (<) (map time_fs xs) \<and> Suc i < length xs \<and>
      time_fs (xs ! i) < t \<and> t < time_fs (xs ! Suc i)"
  then have srt: "sorted_wrt (<) (map time_fs xs)" and i: "Suc i < length xs"
    and lo: "time_fs (xs ! i) < t" and hi: "t < time_fs (xs ! Suc i)"
    by simp_all
  have ne: "xs \<noteq> []" using i by auto
  have "time_fs (hd xs) \<le> time_fs (xs ! i)"
    using sorted_first_le [OF srt, of i] i by simp
  with lo have c1: "\<not> t < time_fs (hd xs)" by simp
  have "time_fs (xs ! Suc i) \<le> time_fs (last xs)"
    using sorted_last_ge [OF srt i] .
  with hi have c2: "\<not> t > time_fs (last xs)" by simp
  have td: "time_fs (xs ! Suc i) - time_fs (xs ! i) > 0" using lo hi by simp
  have res: "findClosestExcitationData xs t = interpolate (xs ! i) (xs ! Suc i) t"
    using ne c1 c2 surrounding_bracket [OF srt i lo hi]
    by (simp add: findClosestExcitationData_def)
  have f: "0 < (t - time_fs (xs ! i)) / (time_fs (xs ! Suc i) - time_fs (xs ! i))"
          "(t - time_fs (xs ! i)) / (time_fs (xs ! Suc i) - time_fs (xs ! i)) < 1"
    using lo hi td by simp_all
  show "let before = xs ! i; after = xs ! Suc i;
           f = (t - time_fs before) / (time_fs after - time_fs before);
           e1 = s1_energy before + f * (s1_energy after - s1_energy before);
           f1 = s1_oscillator before + f * (s1_oscillator after - s1_oscillator before);
           e2 = s2_energy before + f * (s2_energy after - s2_energy before);
           f2 = s2_oscillator before + f * (s2_oscillator after - s2_oscillator before)
       in 0 < f \<and> f < 1 \<and>
          findClosestExcitationData xs t =
            Sample \<lparr> time_fs = t, time_ps = Some (t / 1000),
                      s1_energy = e1, s1_oscillator = f1, s2_energy = e2, s2_oscillator = f2,
                      energy_gap = Some (e2 - e1), interpolated = Some True \<rparr>"
    unfolding Let_def
    using f td by (simp add: res interpolate_def Let_def)
next
  show "\<exists>r. findClosestExcitationData
             [loaded 0 a0 0.1 b0 0.4, loaded 100 a1 0.3 b1 0.2, loaded 200 a2 0.5 b2 0.1,
              loaded 300 a3 0.2 b3 0.3, loaded 400 a4 0.05 b4 0.5] 150 = Sample r
          \<and> s1_oscillator r = 0.4 \<and> s2_oscillator r = 0.15
          \<and> s1_oscillator r > s2_oscillator r \<and> interpolated r = Some True"
    by (simp add: findClosestExcitationData_def interpolate_def loaded_def Let_def)
qed


theorem findClosestExcitationData_linear_interpolation_witness:
  "sorted_wrt (<) (map time_fs [loaded 0 4 0.1 5 0.4, loaded 100 4.2 0.3 5.2 0.2, loaded 200 4.4 0.5 5 0.1])
   \<and> findClosestExcitationData
        [loaded 0 4 0.1 5 0.4, loaded 100 4.2 0.3 5.2 0.2, loaded 200 4.4 0.5 5 0.1] 150
      = Sample \<lparr> time_fs = 150, time_ps = Some 0.15, s1_energy = 4.3, s1_oscillator = 0.4,
                  s2_energy = 5.1, s2_oscillator = 0.15, energy_gap = Some 0.8,
                  interpolated = Some True \<rparr>"
proof -
  let ?xs = "[loaded 0 4 0.1 5 0.4, loaded 100 4.2 0.3 5.2 0.2, loaded 200 4.4 0.5 5 0.1]"
  have h: "sorted_wrt (<) (map time_fs ?xs) \<and> Suc 1 < length ?xs \<and>
      time_fs (?xs ! 1) < 150 \<and> 150 < time_fs (?xs ! Suc 1)"
    by (simp add: loaded_def)
  show ?thesis
    using findClosestExcitationData_linear_interpolation [of ?xs 1 150] h
    by (simp add: loaded_def Let_def)
qed

lemma findClosestExcitationData_clamps:
  "excitationData \<noteq> [] \<Longrightarrow> t < time_fs (hd excitationData) \<Longrightarrow>
     findClosestExcitationData excitationData t = Sample (hd excitationData)"
  "excitationData \<noteq> [] \<Longrightarrow> \<not> t < time_fs (hd excitationData) \<Longrightarrow>
     time_fs (last excitationData) < t \<Longrightarrow>
     findClosestExcitationData excitationData t = Sample (last excitationData)"
  by (simp_all add: findClosestExcitationData_def)

lemma findClosestExcitationData_single:
  "findClosestExcitationData [e] (time_fs e) = Sample e"
  by (simp add: findClosestExcitationData_def closest_point_def closest_step_def)

text \<open>
  C1. Evaluation at a knot: with samples at 0 and 100 fs, the query at 100 fs (and likewise the one at 0 fs) does not return the stored sample but a new object built by the interpolation branch and flagged as interpolated, although the lookup is documented to return the stored point on an exact match. Strictly outside the sampled range, and with a single sample, the stored sample is returned.
\<close>

theorem findClosestExcitationData_knot_is_interpolated:
  "findClosestExcitationData [loaded 0 4 0.1 5 0.4, loaded 100 4.2 0.3 5.1 0.2] 100
     = Sample \<lparr> time_fs = 100, time_ps = Some 0.1, s1_energy = 4.2, s1_oscillator = 0.3,
                 s2_energy = 5.1, s2_oscillator = 0.2, energy_gap = Some 0.9,
                 interpolated = Some True \<rparr>
   \<and> findClosestExcitationData [loaded 0 4 0.1 5 0.4, loaded 100 4.2 0.3 5.1 0.2] 100
     \<noteq> Sample (loaded 100 4.2 0.3 5.1 0.2)
   \<and> findClosestExcitationData [loaded 0 4 0.1 5 0.4, loaded 100 4.2 0.3 5.1 0.2] 0
     = Sample \<lparr> time_fs = 0, time_ps = Some 0, s1_energy = 4, s1_oscillator = 0.1,
                 s2_energy = 5, s2_oscillator = 0.4, energy_gap = Some 1,
                 interpolated = Some True \<rparr>
   \<and> findClosestExcitationData [loaded 0 4 0.1 5 0.4, loaded 100 4.2 0.3 5.1 0.2] 0
     \<noteq> Sample (loaded 0 4 0.1 5 0.4)"
  by (simp add: findClosestExcitationData_def interpolate_def loaded_def Let_def)

section \<open>Correlation and bins: results\<close>

lemma num_lt_irrefl: "\<not> num_lt a a"
  by (cases a) simp_all

lemma typeof_number_iff: "typeof v = ''number'' \<longleftrightarrow> (\<exists>n. v = JNum n)"
  by (cases v) simp_all

text \<open>The search of the inner loop: the state after any prefix is either the initial
  one or holds the time distance of a sample already seen.\<close>

lemma nearest_step_pair:
  "nearest_step t x (c, m) =
     (if num_lt (Fin \<bar>exc_time_fs x - t\<bar>) m then (Some x, Fin \<bar>exc_time_fs x - t\<bar>) else (c, m))"
  by (simp add: nearest_step_def Let_def)

lemma nearest_prefix:
  "fold (nearest_step t) ys (None, PosInf) = (None, PosInf) \<or>
   (\<exists>y \<in> set ys. fold (nearest_step t) ys (None, PosInf) = (Some y, Fin \<bar>exc_time_fs y - t\<bar>))"
proof (induction ys rule: rev_induct)
  case Nil
  show ?case by simp
next
  case (snoc x ys)
  from snoc show ?case
  proof
    assume "fold (nearest_step t) ys (None, PosInf) = (None, PosInf)"
    then show ?thesis by (simp add: nearest_step_pair)
  next
    assume "\<exists>y \<in> set ys. fold (nearest_step t) ys (None, PosInf)
              = (Some y, Fin \<bar>exc_time_fs y - t\<bar>)"
    then obtain y where "y \<in> set ys"
      "fold (nearest_step t) ys (None, PosInf) = (Some y, Fin \<bar>exc_time_fs y - t\<bar>)"
      by blast
    then show ?thesis by (auto simp: nearest_step_pair)
  qed
qed

lemma nearest_suffix:
  "\<forall>z \<in> set zs. d \<le> \<bar>exc_time_fs z - t\<bar> \<Longrightarrow>
   fold (nearest_step t) zs (Some c, Fin d) = (Some c, Fin d)"
  by (induction zs) (simp_all add: nearest_step_pair)

text \<open>The sample found is the first one among those at the least time distance.\<close>

lemma nearest_first_minimum:
  assumes "\<forall>y \<in> set ys. \<bar>exc_time_fs c - t\<bar> < \<bar>exc_time_fs y - t\<bar>"
    and "\<forall>z \<in> set zs. \<bar>exc_time_fs c - t\<bar> \<le> \<bar>exc_time_fs z - t\<bar>"
  shows "nearest (ys @ c # zs) t = (Some c, Fin \<bar>exc_time_fs c - t\<bar>)"
proof -
  have "nearest_step t c (fold (nearest_step t) ys (None, PosInf))
          = (Some c, Fin \<bar>exc_time_fs c - t\<bar>)"
    using nearest_prefix [of t ys] assms(1)
    by (auto simp: nearest_step_pair)
  then show ?thesis
    using nearest_suffix [OF assms(2)] by (simp add: nearest_def)
qed

lemma first_minimum_exists:
  fixes f :: "'a \<Rightarrow> real"
  assumes "xs \<noteq> []"
  shows "\<exists>ys c zs. xs = ys @ c # zs \<and> (\<forall>y \<in> set ys. f c < f y) \<and> (\<forall>z \<in> set zs. f c \<le> f z)"
  using assms
proof (induction xs)
  case Nil
  then show ?case by simp
next
  case (Cons x xs)
  show ?case
  proof (cases "xs = []")
    case True
    then have "x # xs = [] @ x # []" by simp
    then show ?thesis by (metis empty_iff list.set(1))
  next
    case False
    from Cons.IH [OF False] obtain ys c zs where xs: "xs = ys @ c # zs"
      and ys: "\<forall>y \<in> set ys. f c < f y" and zs: "\<forall>z \<in> set zs. f c \<le> f z"
      by blast
    show ?thesis
    proof (cases "f x \<le> f c")
      case True
      have "\<forall>z \<in> set xs. f x \<le> f z"
      proof
        fix z assume "z \<in> set xs"
        then have "f c \<le> f z" using xs ys zs by (auto simp: less_imp_le)
        with True show "f x \<le> f z" by linarith
      qed
      moreover have "x # xs = [] @ x # xs" by simp
      ultimately show ?thesis by (metis empty_iff list.set(1))
    next
      case False
      then have "\<forall>y \<in> set (x # ys). f c < f y" using ys by simp
      moreover have "x # xs = (x # ys) @ c # zs" using xs by simp
      ultimately show ?thesis using zs by blast
    qed
  qed
qed

text \<open>What one frame pushes, in terms of its nearest sample.\<close>

lemma correlate_frame_first_nearest:
  assumes "\<forall>y \<in> set ys. \<bar>exc_time_fs c - frame_time_fs g\<bar> < \<bar>exc_time_fs y - frame_time_fs g\<bar>"
    and "\<forall>z \<in> set zs. \<bar>exc_time_fs c - frame_time_fs g\<bar> \<le> \<bar>exc_time_fs z - frame_time_fs g\<bar>"
  shows "correlate_frame (ys @ c # zs) g =
     (if \<bar>exc_time_fs c - frame_time_fs g\<bar> < 50 then
        (case (exc_s1_oscillator c, exc_s2_oscillator c) of
           (JNum a, JNum b) \<Rightarrow>
             [\<lparr> twist_angle = twist_angle g, ring_planarity = ring_planarity g,
               frame_time_ps = frame_time_ps g, frame_time_fs = frame_time_fs g,
               frame_number = frame_number g,
               corr_s1_oscillator = a, corr_s2_oscillator = b,
               s1_dominant = num_gt a b \<rparr>]
         | _ \<Rightarrow> [])
      else [])"
  by (simp add: correlate_frame_def nearest_first_minimum [OF assms])

lemma correlate_frame_empty: "correlate_frame [] g = []"
  by (simp add: correlate_frame_def nearest_def)

lemma correlate_frame_origin:
  assumes "d \<in> set (correlate_frame excitationData g)"
  shows "\<exists>ys c zs a b. excitationData = ys @ c # zs
     \<and> (\<forall>y \<in> set ys. \<bar>exc_time_fs c - frame_time_fs g\<bar> < \<bar>exc_time_fs y - frame_time_fs g\<bar>)
     \<and> (\<forall>z \<in> set zs. \<bar>exc_time_fs c - frame_time_fs g\<bar> \<le> \<bar>exc_time_fs z - frame_time_fs g\<bar>)
     \<and> \<bar>exc_time_fs c - frame_time_fs g\<bar> < 50
     \<and> exc_s1_oscillator c = JNum a \<and> exc_s2_oscillator c = JNum b
     \<and> d = \<lparr> twist_angle = twist_angle g, ring_planarity = ring_planarity g,
               frame_time_ps = frame_time_ps g, frame_time_fs = frame_time_fs g,
               frame_number = frame_number g,
               corr_s1_oscillator = a, corr_s2_oscillator = b,
               s1_dominant = num_gt a b \<rparr>"
proof -
  have ne: "excitationData \<noteq> []"
    using assms correlate_frame_empty by auto
  from first_minimum_exists [OF ne, of "\<lambda>x. \<bar>exc_time_fs x - frame_time_fs g\<bar>"]
  obtain ys c zs where xs: "excitationData = ys @ c # zs"
    and ys: "\<forall>y \<in> set ys. \<bar>exc_time_fs c - frame_time_fs g\<bar> < \<bar>exc_time_fs y - frame_time_fs g\<bar>"
    and zs: "\<forall>z \<in> set zs. \<bar>exc_time_fs c - frame_time_fs g\<bar> \<le> \<bar>exc_time_fs z - frame_time_fs g\<bar>"
    by blast
  note cf = correlate_frame_first_nearest [OF ys zs]
  have near: "\<bar>exc_time_fs c - frame_time_fs g\<bar> < 50"
  proof (rule ccontr)
    assume "\<not> \<bar>exc_time_fs c - frame_time_fs g\<bar> < 50"
    then have "correlate_frame excitationData g = []" by (simp add: xs cf)
    with assms show False by simp
  qed
  show ?thesis
  proof (cases "exc_s1_oscillator c")
    case (JNum a)
    show ?thesis
    proof (cases "exc_s2_oscillator c")
      case (JNum b)
      have "correlate_frame excitationData g = [\<lparr> twist_angle = twist_angle g, ring_planarity = ring_planarity g,
               frame_time_ps = frame_time_ps g, frame_time_fs = frame_time_fs g,
               frame_number = frame_number g,
               corr_s1_oscillator = a, corr_s2_oscillator = b,
               s1_dominant = num_gt a b \<rparr>]"
        using near \<open>exc_s1_oscillator c = JNum a\<close> JNum by (simp add: xs cf)
      with assms have "d = \<lparr> twist_angle = twist_angle g, ring_planarity = ring_planarity g,
               frame_time_ps = frame_time_ps g, frame_time_fs = frame_time_fs g,
               frame_number = frame_number g,
               corr_s1_oscillator = a, corr_s2_oscillator = b,
               s1_dominant = num_gt a b \<rparr>" by simp
      with xs ys zs near \<open>exc_s1_oscillator c = JNum a\<close> JNum show ?thesis by blast
    next
      case JNull
      then have "correlate_frame excitationData g = []"
        using \<open>exc_s1_oscillator c = JNum a\<close> by (simp add: xs cf)
      with assms show ?thesis by simp
    next
      case JUndefined
      then have "correlate_frame excitationData g = []"
        using \<open>exc_s1_oscillator c = JNum a\<close> by (simp add: xs cf)
      with assms show ?thesis by simp
    next
      case (JStr x)
      then have "correlate_frame excitationData g = []"
        using \<open>exc_s1_oscillator c = JNum a\<close> by (simp add: xs cf)
      with assms show ?thesis by simp
    next
      case (JBool x)
      then have "correlate_frame excitationData g = []"
        using \<open>exc_s1_oscillator c = JNum a\<close> by (simp add: xs cf)
      with assms show ?thesis by simp
    qed
  next
    case JNull
    then have "correlate_frame excitationData g = []" by (simp add: xs cf)
    with assms show ?thesis by simp
  next
    case JUndefined
    then have "correlate_frame excitationData g = []" by (simp add: xs cf)
    with assms show ?thesis by simp
  next
    case (JStr x)
    then have "correlate_frame excitationData g = []" by (simp add: xs cf)
    with assms show ?thesis by simp
  next
    case (JBool x)
    then have "correlate_frame excitationData g = []" by (simp add: xs cf)
    with assms show ?thesis by simp
  qed
qed

lemma num_gt_Fin: "num_gt (Fin x) (Fin y) \<longleftrightarrow> y < x"
  by (simp add: num_gt_def)

text \<open>
  C7. Every entry of \<^verbatim>\<open>correlationData\<close> comes from a frame and the sample matched
  to it (the first sample at the least time distance, less than 50 fs away, with both
  oscillator values numbers), carries that sample's two oscillator values, and is
  labelled \<^verbatim>\<open>s1_dominant\<close> exactly when the sample's first oscillator value is
  strictly greater than its second; conversely every frame with such a matched sample
  yields the entry so labelled. The comparison is JavaScript's \<^verbatim>\<open>>\<close>: on finite
  numbers it is \<open>>\<close> on the reals and it is false for equal values, so a tie counts as
  dominated by the second state.
\<close>

theorem s1_dominant_iff_strictly_greater:
  "(d \<in> set (correlationData geometryData excitationData) \<longrightarrow>
      (\<exists>g \<in> set geometryData. \<exists>ys c zs a b.
          excitationData = ys @ c # zs
        \<and> (\<forall>y \<in> set ys. \<bar>exc_time_fs c - frame_time_fs g\<bar> < \<bar>exc_time_fs y - frame_time_fs g\<bar>)
        \<and> (\<forall>z \<in> set zs. \<bar>exc_time_fs c - frame_time_fs g\<bar> \<le> \<bar>exc_time_fs z - frame_time_fs g\<bar>)
        \<and> \<bar>exc_time_fs c - frame_time_fs g\<bar> < 50
        \<and> exc_s1_oscillator c = JNum a \<and> exc_s2_oscillator c = JNum b
        \<and> d = \<lparr> twist_angle = twist_angle g, ring_planarity = ring_planarity g,
               frame_time_ps = frame_time_ps g, frame_time_fs = frame_time_fs g,
               frame_number = frame_number g,
               corr_s1_oscillator = a, corr_s2_oscillator = b,
               s1_dominant = num_gt a b \<rparr>
        \<and> (s1_dominant d \<longleftrightarrow> num_gt a b)
        \<and> (a = b \<longrightarrow> \<not> s1_dominant d)
        \<and> (\<forall>x y. a = Fin x \<and> b = Fin y \<longrightarrow> (s1_dominant d \<longleftrightarrow> x > y))))
   \<and> (g \<in> set geometryData \<and> excitationData = ys @ c # zs
        \<and> (\<forall>y \<in> set ys. \<bar>exc_time_fs c - frame_time_fs g\<bar> < \<bar>exc_time_fs y - frame_time_fs g\<bar>)
        \<and> (\<forall>z \<in> set zs. \<bar>exc_time_fs c - frame_time_fs g\<bar> \<le> \<bar>exc_time_fs z - frame_time_fs g\<bar>)
        \<and> \<bar>exc_time_fs c - frame_time_fs g\<bar> < 50
        \<and> exc_s1_oscillator c = JNum a \<and> exc_s2_oscillator c = JNum b
      \<longrightarrow> \<lparr> twist_angle = twist_angle g, ring_planarity = ring_planarity g,
               frame_time_ps = frame_time_ps g, frame_time_fs = frame_time_fs g,
               frame_number = frame_number g,
               corr_s1_oscillator = a, corr_s2_oscillator = b,
               s1_dominant = num_gt a b \<rparr>
            \<in> set (correlationData geometryData excitationData))
   \<and> (\<forall>x y. num_gt (Fin x) (Fin y) \<longleftrightarrow> x > y)
   \<and> (\<forall>n. \<not> num_gt n n)"
proof (intro conjI impI allI)
  assume "d \<in> set (correlationData geometryData excitationData)"
  then obtain g where g: "g \<in> set geometryData" and d: "d \<in> set (correlate_frame excitationData g)"
    by (auto simp: correlationData_def)
  from correlate_frame_origin [OF d] obtain ys c zs a b where
    o: "excitationData = ys @ c # zs"
       "\<forall>y \<in> set ys. \<bar>exc_time_fs c - frame_time_fs g\<bar> < \<bar>exc_time_fs y - frame_time_fs g\<bar>"
       "\<forall>z \<in> set zs. \<bar>exc_time_fs c - frame_time_fs g\<bar> \<le> \<bar>exc_time_fs z - frame_time_fs g\<bar>"
       "\<bar>exc_time_fs c - frame_time_fs g\<bar> < 50"
       "exc_s1_oscillator c = JNum a" "exc_s2_oscillator c = JNum b"
    and de: "d = \<lparr> twist_angle = twist_angle g, ring_planarity = ring_planarity g,
               frame_time_ps = frame_time_ps g, frame_time_fs = frame_time_fs g,
               frame_number = frame_number g,
               corr_s1_oscillator = a, corr_s2_oscillator = b,
               s1_dominant = num_gt a b \<rparr>"
    by blast
  have l1: "s1_dominant d \<longleftrightarrow> num_gt a b" by (simp add: de)
  have l2: "a = b \<longrightarrow> \<not> s1_dominant d"
    by (simp add: de num_gt_def num_lt_irrefl)
  have l3: "\<forall>x y. a = Fin x \<and> b = Fin y \<longrightarrow> (s1_dominant d \<longleftrightarrow> x > y)"
    by (auto simp: de num_gt_Fin)
  from g o de l1 l2 l3
  show "\<exists>g \<in> set geometryData. \<exists>ys c zs a b.
          excitationData = ys @ c # zs
        \<and> (\<forall>y \<in> set ys. \<bar>exc_time_fs c - frame_time_fs g\<bar> < \<bar>exc_time_fs y - frame_time_fs g\<bar>)
        \<and> (\<forall>z \<in> set zs. \<bar>exc_time_fs c - frame_time_fs g\<bar> \<le> \<bar>exc_time_fs z - frame_time_fs g\<bar>)
        \<and> \<bar>exc_time_fs c - frame_time_fs g\<bar> < 50
        \<and> exc_s1_oscillator c = JNum a \<and> exc_s2_oscillator c = JNum b
        \<and> d = \<lparr> twist_angle = twist_angle g, ring_planarity = ring_planarity g,
               frame_time_ps = frame_time_ps g, frame_time_fs = frame_time_fs g,
               frame_number = frame_number g,
               corr_s1_oscillator = a, corr_s2_oscillator = b,
               s1_dominant = num_gt a b \<rparr>
        \<and> (s1_dominant d \<longleftrightarrow> num_gt a b)
        \<and> (a = b \<longrightarrow> \<not> s1_dominant d)
        \<and> (\<forall>x y. a = Fin x \<and> b = Fin y \<longrightarrow> (s1_dominant d \<longleftrightarrow> x > y))"
    by blast
next
  assume h: "g \<in> set geometryData \<and> excitationData = ys @ c # zs
        \<and> (\<forall>y \<in> set ys. \<bar>exc_time_fs c - frame_time_fs g\<bar> < \<bar>exc_time_fs y - frame_time_fs g\<bar>)
        \<and> (\<forall>z \<in> set zs. \<bar>exc_time_fs c - frame_time_fs g\<bar> \<le> \<bar>exc_time_fs z - frame_time_fs g\<bar>)
        \<and> \<bar>exc_time_fs c - frame_time_fs g\<bar> < 50
        \<and> exc_s1_oscillator c = JNum a \<and> exc_s2_oscillator c = JNum b"
  then have ys: "\<forall>y \<in> set ys. \<bar>exc_time_fs c - frame_time_fs g\<bar> < \<bar>exc_time_fs y - frame_time_fs g\<bar>"
    and zs: "\<forall>z \<in> set zs. \<bar>exc_time_fs c - frame_time_fs g\<bar> \<le> \<bar>exc_time_fs z - frame_time_fs g\<bar>"
    by blast+
  from h have "correlate_frame excitationData g = [\<lparr> twist_angle = twist_angle g, ring_planarity = ring_planarity g,
               frame_time_ps = frame_time_ps g, frame_time_fs = frame_time_fs g,
               frame_number = frame_number g,
               corr_s1_oscillator = a, corr_s2_oscillator = b,
               s1_dominant = num_gt a b \<rparr>]"
    by (simp add: correlate_frame_first_nearest [OF ys zs])
  with h show "\<lparr> twist_angle = twist_angle g, ring_planarity = ring_planarity g,
               frame_time_ps = frame_time_ps g, frame_time_fs = frame_time_fs g,
               frame_number = frame_number g,
               corr_s1_oscillator = a, corr_s2_oscillator = b,
               s1_dominant = num_gt a b \<rparr>
            \<in> set (correlationData geometryData excitationData)"
    by (force simp: correlationData_def)
next
  fix x y show "num_gt (Fin x) (Fin y) \<longleftrightarrow> x > y" by (simp add: num_gt_Fin)
next
  fix n show "\<not> num_gt n n" by (simp add: num_gt_def num_lt_irrefl)
qed

theorem s1_dominant_iff_strictly_greater_witness:
  "entry 10 0 0 True
     \<in> set (correlationData [frame 10 0 0]
          [\<lparr> exc_time_fs = 100, exc_s1_oscillator = JNum (Fin 0.1), exc_s2_oscillator = JNum (Fin 0.4) \<rparr>,
           \<lparr> exc_time_fs = 10, exc_s1_oscillator = JNum (Fin 0.4), exc_s2_oscillator = JNum (Fin 0.1) \<rparr>])
   \<and> entry 10 0 0 False
     \<in> set (correlationData [frame 10 0 0]
          [\<lparr> exc_time_fs = -10, exc_s1_oscillator = JNum (Fin 0.1), exc_s2_oscillator = JNum (Fin 0.4) \<rparr>,
           \<lparr> exc_time_fs = 10, exc_s1_oscillator = JNum (Fin 0.4), exc_s2_oscillator = JNum (Fin 0.1) \<rparr>])
   \<and> \<lparr> twist_angle = 10, ring_planarity = 0, frame_time_ps = 0, frame_time_fs = 0, frame_number = 0,
        corr_s1_oscillator = Fin 0.3, corr_s2_oscillator = Fin 0.3, s1_dominant = False \<rparr>
     \<in> set (correlationData [frame 10 0 0]
          [\<lparr> exc_time_fs = 10, exc_s1_oscillator = JNum (Fin 0.3), exc_s2_oscillator = JNum (Fin 0.3) \<rparr>])"
proof -
  let ?far = "\<lparr> exc_time_fs = 100, exc_s1_oscillator = JNum (Fin 0.1), exc_s2_oscillator = JNum (Fin 0.4) \<rparr>"
  let ?left = "\<lparr> exc_time_fs = -10, exc_s1_oscillator = JNum (Fin 0.1), exc_s2_oscillator = JNum (Fin 0.4) \<rparr>"
  let ?near = "\<lparr> exc_time_fs = 10, exc_s1_oscillator = JNum (Fin 0.4), exc_s2_oscillator = JNum (Fin 0.1) \<rparr>"
  let ?tie = "\<lparr> exc_time_fs = 10, exc_s1_oscillator = JNum (Fin 0.3), exc_s2_oscillator = JNum (Fin 0.3) \<rparr>"
  note T = s1_dominant_iff_strictly_greater [THEN conjunct2, THEN conjunct1, rule_format]
  have s1: "entry 10 0 0 True \<in> set (correlationData [frame 10 0 0] [?far, ?near])"
    using T [where g = "frame 10 0 0" and geometryData = "[frame 10 0 0]"
               and excitationData = "[?far, ?near]" and ys = "[?far]" and c = ?near and zs = "[]"
               and a = "Fin 0.4" and b = "Fin 0.1"]
    by (simp add: frame_def entry_def num_gt_Fin)
  have s2: "entry 10 0 0 False \<in> set (correlationData [frame 10 0 0] [?left, ?near])"
    using T [where g = "frame 10 0 0" and geometryData = "[frame 10 0 0]"
               and excitationData = "[?left, ?near]" and ys = "[]" and c = ?left and zs = "[?near]"
               and a = "Fin 0.1" and b = "Fin 0.4"]
    by (simp add: frame_def entry_def num_gt_Fin)
  have tie: "\<lparr> twist_angle = 10, ring_planarity = 0, frame_time_ps = 0, frame_time_fs = 0, frame_number = 0,
        corr_s1_oscillator = Fin 0.3, corr_s2_oscillator = Fin 0.3, s1_dominant = False \<rparr>
     \<in> set (correlationData [frame 10 0 0] [?tie])"
    using T [where g = "frame 10 0 0" and geometryData = "[frame 10 0 0]"
               and excitationData = "[?tie]" and ys = "[]" and c = ?tie and zs = "[]"
               and a = "Fin 0.3" and b = "Fin 0.3"]
    by (simp add: frame_def num_gt_Fin)
  from s1 s2 tie show ?thesis by blast
qed

text \<open>
  C3 (as stated). That a frame whose matched sample has a NaN or infinite oscillator
  value is dropped does not hold for the code: a frame whose nearest sample has the
  oscillator values NaN and Infinity yields an entry of \<^verbatim>\<open>correlationData\<close>.
\<close>

theorem correlationData_keeps_NaN_counterexample:
  "\<not> isFinite NaN \<and> \<not> isFinite PosInf
   \<and> nearest [\<lparr> exc_time_fs = 0, exc_s1_oscillator = JNum NaN, exc_s2_oscillator = JNum PosInf \<rparr>] 0
       = (Some \<lparr> exc_time_fs = 0, exc_s1_oscillator = JNum NaN, exc_s2_oscillator = JNum PosInf \<rparr>, Fin 0)
   \<and> correlationData
        [\<lparr> twist_angle = 10, ring_planarity = 0, frame_time_ps = 0, frame_time_fs = 0, frame_number = 0 \<rparr>]
        [\<lparr> exc_time_fs = 0, exc_s1_oscillator = JNum NaN, exc_s2_oscillator = JNum PosInf \<rparr>]
       = [\<lparr> twist_angle = 10, ring_planarity = 0, frame_time_ps = 0, frame_time_fs = 0, frame_number = 0,
             corr_s1_oscillator = NaN, corr_s2_oscillator = PosInf, s1_dominant = False \<rparr>]"
  by (simp add: isFinite_def nearest_def nearest_step_def correlationData_def correlate_frame_def
        num_gt_def)

text \<open>
  C3 (amended). Let \<open>c\<close> be the nearest sample of a frame: the first sample of the
  series at the least time distance from the frame, which is what the search returns.
  When an oscillator property of \<open>c\<close> is not of type number, or \<open>c\<close> is 50 fs or more
  away, the frame yields no entry; when both are of type number (NaN and the infinities
  included) and \<open>c\<close> is less than 50 fs away, it yields exactly the one entry with the
  two values of \<open>c\<close>. The filter works frame by frame: the entries of a frame list are
  those of the frames before, those of the frame, and those of the frames after.
\<close>

theorem correlate_frame_typeof_filter:
  assumes "excitationData = ys @ c # zs"
    and "\<forall>y \<in> set ys. \<bar>exc_time_fs c - frame_time_fs g\<bar> < \<bar>exc_time_fs y - frame_time_fs g\<bar>"
    and "\<forall>z \<in> set zs. \<bar>exc_time_fs c - frame_time_fs g\<bar> \<le> \<bar>exc_time_fs z - frame_time_fs g\<bar>"
  shows "nearest excitationData (frame_time_fs g)
            = (Some c, Fin \<bar>exc_time_fs c - frame_time_fs g\<bar>)
       \<and> (typeof (exc_s1_oscillator c) \<noteq> ''number'' \<or> typeof (exc_s2_oscillator c) \<noteq> ''number''
            \<longrightarrow> correlate_frame excitationData g = [])
       \<and> (\<bar>exc_time_fs c - frame_time_fs g\<bar> \<ge> 50 \<longrightarrow> correlate_frame excitationData g = [])
       \<and> (\<forall>a b. exc_s1_oscillator c = JNum a \<and> exc_s2_oscillator c = JNum b
                 \<and> \<bar>exc_time_fs c - frame_time_fs g\<bar> < 50
            \<longrightarrow> correlate_frame excitationData g = [\<lparr> twist_angle = twist_angle g, ring_planarity = ring_planarity g,
               frame_time_ps = frame_time_ps g, frame_time_fs = frame_time_fs g,
               frame_number = frame_number g,
               corr_s1_oscillator = a, corr_s2_oscillator = b,
               s1_dominant = num_gt a b \<rparr>])
       \<and> (typeof (exc_s1_oscillator c) = ''number'' \<and> typeof (exc_s2_oscillator c) = ''number''
            \<and> \<bar>exc_time_fs c - frame_time_fs g\<bar> < 50
            \<longrightarrow> length (correlate_frame excitationData g) = 1)
       \<and> correlationData (before @ g # after) excitationData
            = correlationData before excitationData @ correlate_frame excitationData g
                @ correlationData after excitationData"
proof -
  note cf = correlate_frame_first_nearest [OF assms(2,3), folded assms(1)]
  have n: "nearest excitationData (frame_time_fs g)
            = (Some c, Fin \<bar>exc_time_fs c - frame_time_fs g\<bar>)"
    unfolding assms(1) using assms(2,3) by (rule nearest_first_minimum)
  have drop: "correlate_frame excitationData g = []"
    if "typeof (exc_s1_oscillator c) \<noteq> ''number'' \<or> typeof (exc_s2_oscillator c) \<noteq> ''number''"
    using that
    by (cases "exc_s1_oscillator c"; cases "exc_s2_oscillator c") (simp_all add: cf)
  have far: "correlate_frame excitationData g = []"
    if "\<bar>exc_time_fs c - frame_time_fs g\<bar> \<ge> 50"
    using that by (simp add: cf)
  have keep: "correlate_frame excitationData g = [\<lparr> twist_angle = twist_angle g, ring_planarity = ring_planarity g,
               frame_time_ps = frame_time_ps g, frame_time_fs = frame_time_fs g,
               frame_number = frame_number g,
               corr_s1_oscillator = a, corr_s2_oscillator = b,
               s1_dominant = num_gt a b \<rparr>]"
    if "exc_s1_oscillator c = JNum a \<and> exc_s2_oscillator c = JNum b
                 \<and> \<bar>exc_time_fs c - frame_time_fs g\<bar> < 50" for a b
    using that by (simp add: cf)
  have one: "length (correlate_frame excitationData g) = 1"
    if "typeof (exc_s1_oscillator c) = ''number'' \<and> typeof (exc_s2_oscillator c) = ''number''
            \<and> \<bar>exc_time_fs c - frame_time_fs g\<bar> < 50"
  proof -
    from that obtain a b where "exc_s1_oscillator c = JNum a" "exc_s2_oscillator c = JNum b"
      by (auto simp: typeof_number_iff)
    with that keep [of a b] show ?thesis by simp
  qed
  have rest: "correlationData (before @ g # after) excitationData
            = correlationData before excitationData @ correlate_frame excitationData g
                @ correlationData after excitationData"
    by (simp add: correlationData_def)
  from n drop far keep one rest show ?thesis by blast
qed

theorem correlate_frame_typeof_filter_witness:
  "correlate_frame
       [\<lparr> exc_time_fs = 100, exc_s1_oscillator = JNum (Fin 0.1), exc_s2_oscillator = JNum (Fin 0.4) \<rparr>,
        \<lparr> exc_time_fs = 10, exc_s1_oscillator = JNum NaN, exc_s2_oscillator = JNum (Fin 0.2) \<rparr>]
       (frame 10 0 0)
     = [\<lparr> twist_angle = 10, ring_planarity = 0, frame_time_ps = 0, frame_time_fs = 0, frame_number = 0,
           corr_s1_oscillator = NaN, corr_s2_oscillator = Fin 0.2, s1_dominant = False \<rparr>]
   \<and> correlate_frame
       [\<lparr> exc_time_fs = 100, exc_s1_oscillator = JNum (Fin 0.1), exc_s2_oscillator = JNum (Fin 0.4) \<rparr>,
        \<lparr> exc_time_fs = 10, exc_s1_oscillator = JNull, exc_s2_oscillator = JNum (Fin 0.2) \<rparr>]
       (frame 10 0 0)
     = []
   \<and> correlate_frame
       [\<lparr> exc_time_fs = 100, exc_s1_oscillator = JNum (Fin 0.1), exc_s2_oscillator = JNum (Fin 0.4) \<rparr>,
        \<lparr> exc_time_fs = 60, exc_s1_oscillator = JNum (Fin 0.3), exc_s2_oscillator = JNum (Fin 0.2) \<rparr>]
       (frame 10 0 0)
     = []
   \<and> nearest
       [\<lparr> exc_time_fs = 100, exc_s1_oscillator = JNum (Fin 0.1), exc_s2_oscillator = JNum (Fin 0.4) \<rparr>,
        \<lparr> exc_time_fs = 60, exc_s1_oscillator = JNum (Fin 0.3), exc_s2_oscillator = JNum (Fin 0.2) \<rparr>]
       0
     = (Some \<lparr> exc_time_fs = 60, exc_s1_oscillator = JNum (Fin 0.3), exc_s2_oscillator = JNum (Fin 0.2) \<rparr>,
        Fin 60)"
proof -
  let ?far = "\<lparr> exc_time_fs = 100, exc_s1_oscillator = JNum (Fin 0.1), exc_s2_oscillator = JNum (Fin 0.4) \<rparr>"
  let ?nan = "\<lparr> exc_time_fs = 10, exc_s1_oscillator = JNum NaN, exc_s2_oscillator = JNum (Fin 0.2) \<rparr>"
  let ?null = "\<lparr> exc_time_fs = 10, exc_s1_oscillator = JNull, exc_s2_oscillator = JNum (Fin 0.2) \<rparr>"
  let ?mid = "\<lparr> exc_time_fs = 60, exc_s1_oscillator = JNum (Fin 0.3), exc_s2_oscillator = JNum (Fin 0.2) \<rparr>"
  let ?g = "frame 10 0 0"
  have split: "[?far, ?nan] = [?far] @ ?nan # []" "[?far, ?null] = [?far] @ ?null # []"
    "[?far, ?mid] = [?far] @ ?mid # []"
    by simp_all
  have first: "\<forall>y \<in> set [?far]. \<bar>exc_time_fs ?nan - frame_time_fs ?g\<bar> < \<bar>exc_time_fs y - frame_time_fs ?g\<bar>"
    "\<forall>y \<in> set [?far]. \<bar>exc_time_fs ?null - frame_time_fs ?g\<bar> < \<bar>exc_time_fs y - frame_time_fs ?g\<bar>"
    "\<forall>y \<in> set [?far]. \<bar>exc_time_fs ?mid - frame_time_fs ?g\<bar> < \<bar>exc_time_fs y - frame_time_fs ?g\<bar>"
    by (simp_all add: frame_def)
  have last: "\<forall>z \<in> set []. \<bar>exc_time_fs c - frame_time_fs ?g\<bar> \<le> \<bar>exc_time_fs z - frame_time_fs ?g\<bar>"
    for c :: excFrame
    by simp
  have k: "correlate_frame [?far, ?nan] ?g
     = [\<lparr> twist_angle = 10, ring_planarity = 0, frame_time_ps = 0, frame_time_fs = 0, frame_number = 0,
           corr_s1_oscillator = NaN, corr_s2_oscillator = Fin 0.2, s1_dominant = False \<rparr>]"
    using correlate_frame_typeof_filter [OF split(1) first(1) last]
    by (simp add: frame_def num_gt_def)
  have d: "correlate_frame [?far, ?null] ?g = []"
    using correlate_frame_typeof_filter [OF split(2) first(2) last] by simp
  have f: "correlate_frame [?far, ?mid] ?g = []"
    and n: "nearest [?far, ?mid] 0 = (Some ?mid, Fin 60)"
    using correlate_frame_typeof_filter [OF split(3) first(3) last] by (simp_all add: frame_def)
  from k d f n show ?thesis by blast
qed

lemma nested_fold_product:
  "fold (\<lambda>a. fold (\<lambda>b. f a b) ys) xs s = fold (\<lambda>(a, b). f a b) (List.product xs ys) s"
  by (induction xs arbitrary: s) (simp_all add: fold_map comp_def)

lemma minimal_pair_step:
  assumes "minimal_pair S best"
  shows "minimal_pair (insert (a, b) S) (bestPair_step a b best)"
  using assms unfolding minimal_pair_def
proof (elim disjE conjE exE)
  assume "S = {}" "best = \<lparr> s1Frame = None, s2Frame = None, twistDifference = Some PosInf \<rparr>"
  then show "(insert (a, b) S = {} \<and> bestPair_step a b best = \<lparr> s1Frame = None, s2Frame = None, twistDifference = Some PosInf \<rparr>) \<or>
     (\<exists>a' b'. (a', b') \<in> insert (a, b) S \<and>
        bestPair_step a b best = \<lparr> s1Frame = Some a', s2Frame = Some b',
                 twistDifference = Some (Fin \<bar>twist_angle a' - twist_angle b'\<bar>) \<rparr> \<and>
        (\<forall>(x, y) \<in> insert (a, b) S. \<bar>twist_angle a' - twist_angle b'\<bar> \<le> \<bar>twist_angle x - twist_angle y\<bar>))"
    by (simp add: bestPair_step_def lt_twistDifference_def)
next
  fix p q
  assume pq: "(p, q) \<in> S"
    and best: "best = \<lparr> s1Frame = Some p, s2Frame = Some q,
                 twistDifference = Some (Fin \<bar>twist_angle p - twist_angle q\<bar>) \<rparr>"
    and least: "\<forall>(x, y) \<in> S. \<bar>twist_angle p - twist_angle q\<bar> \<le> \<bar>twist_angle x - twist_angle y\<bar>"
  show "(insert (a, b) S = {} \<and> bestPair_step a b best = \<lparr> s1Frame = None, s2Frame = None, twistDifference = Some PosInf \<rparr>) \<or>
     (\<exists>a' b'. (a', b') \<in> insert (a, b) S \<and>
        bestPair_step a b best = \<lparr> s1Frame = Some a', s2Frame = Some b',
                 twistDifference = Some (Fin \<bar>twist_angle a' - twist_angle b'\<bar>) \<rparr> \<and>
        (\<forall>(x, y) \<in> insert (a, b) S. \<bar>twist_angle a' - twist_angle b'\<bar> \<le> \<bar>twist_angle x - twist_angle y\<bar>))"
  proof (cases "\<bar>twist_angle a - twist_angle b\<bar> < \<bar>twist_angle p - twist_angle q\<bar>")
    case True
    then have "bestPair_step a b best = \<lparr> s1Frame = Some a, s2Frame = Some b,
                 twistDifference = Some (Fin \<bar>twist_angle a - twist_angle b\<bar>) \<rparr>"
      by (simp add: bestPair_step_def lt_twistDifference_def best)
    moreover have "\<forall>(x, y) \<in> insert (a, b) S. \<bar>twist_angle a - twist_angle b\<bar> \<le> \<bar>twist_angle x - twist_angle y\<bar>"
      using least True by fastforce
    ultimately show ?thesis by blast
  next
    case False
    then have "bestPair_step a b best = best"
      by (simp add: bestPair_step_def lt_twistDifference_def best)
    moreover have "\<forall>(x, y) \<in> insert (a, b) S. \<bar>twist_angle p - twist_angle q\<bar> \<le> \<bar>twist_angle x - twist_angle y\<bar>"
      using least False by fastforce
    ultimately show ?thesis using pq best by blast
  qed
qed

lemma minimal_pair_fold:
  "minimal_pair S best \<Longrightarrow>
   minimal_pair (S \<union> set ps) (fold (\<lambda>(a, b). bestPair_step a b) ps best)"
proof (induction ps arbitrary: S best)
  case Nil
  then show ?case by simp
next
  case (Cons p ps)
  obtain a b where p: "p = (a, b)" by (cases p)
  have "minimal_pair (insert (a, b) S) (bestPair_step a b best)"
    using Cons.prems by (rule minimal_pair_step)
  from Cons.IH [OF this] show ?case
    by (simp add: p)
qed
text \<open>
  C6. When both the state-1-dominant and the state-2-dominant list are non-empty, \<^verbatim>\<open>findBestComparisonPair\<close> returns a pair of one frame of each list together with the absolute difference of their twist angles, and that difference is at most the difference of every pair of one frame of each list; when one list is empty that side's frame is null and the difference is null.
\<close>

theorem findBestComparisonPair_minimal_gap:
  "(s1Examples \<noteq> [] \<and> s2Examples \<noteq> [] \<longrightarrow>
      (\<exists>a \<in> set s1Examples. \<exists>b \<in> set s2Examples.
         findBestComparisonPair s1Examples s2Examples =
           \<lparr> s1Frame = Some a, s2Frame = Some b,
              twistDifference = Some (Fin \<bar>twist_angle a - twist_angle b\<bar>) \<rparr> \<and>
         (\<forall>x \<in> set s1Examples. \<forall>y \<in> set s2Examples.
            \<bar>twist_angle a - twist_angle b\<bar> \<le> \<bar>twist_angle x - twist_angle y\<bar>)))
   \<and> (s1Examples = [] \<longrightarrow>
         s1Frame (findBestComparisonPair s1Examples s2Examples) = None \<and>
         twistDifference (findBestComparisonPair s1Examples s2Examples) = None)
   \<and> (s2Examples = [] \<longrightarrow>
         s2Frame (findBestComparisonPair s1Examples s2Examples) = None \<and>
         twistDifference (findBestComparisonPair s1Examples s2Examples) = None)"
proof (intro conjI impI)
  assume ne: "s1Examples \<noteq> [] \<and> s2Examples \<noteq> []"
  let ?init = "\<lparr> s1Frame = None, s2Frame = None, twistDifference = Some PosInf \<rparr>"
  let ?P = "List.product s1Examples s2Examples"
  have res: "findBestComparisonPair s1Examples s2Examples
               = fold (\<lambda>(a, b). bestPair_step a b) ?P ?init"
    using ne by (simp add: findBestComparisonPair_def nested_fold_product)
  have "minimal_pair {} ?init" by (simp add: minimal_pair_def)
  from minimal_pair_fold [OF this, of ?P]
  have mp: "minimal_pair (set ?P) (findBestComparisonPair s1Examples s2Examples)"
    by (simp add: res)
  have "set ?P \<noteq> {}" using ne by simp
  with mp obtain a b where ab: "(a, b) \<in> set ?P"
    and eq: "findBestComparisonPair s1Examples s2Examples =
           \<lparr> s1Frame = Some a, s2Frame = Some b,
              twistDifference = Some (Fin \<bar>twist_angle a - twist_angle b\<bar>) \<rparr>"
    and least: "\<forall>(x, y) \<in> set ?P. \<bar>twist_angle a - twist_angle b\<bar> \<le> \<bar>twist_angle x - twist_angle y\<bar>"
    unfolding minimal_pair_def by blast
  from ab have "a \<in> set s1Examples" "b \<in> set s2Examples" by auto
  moreover from least have "\<forall>x \<in> set s1Examples. \<forall>y \<in> set s2Examples.
            \<bar>twist_angle a - twist_angle b\<bar> \<le> \<bar>twist_angle x - twist_angle y\<bar>"
    by auto
  ultimately show "\<exists>a \<in> set s1Examples. \<exists>b \<in> set s2Examples.
         findBestComparisonPair s1Examples s2Examples =
           \<lparr> s1Frame = Some a, s2Frame = Some b,
              twistDifference = Some (Fin \<bar>twist_angle a - twist_angle b\<bar>) \<rparr> \<and>
         (\<forall>x \<in> set s1Examples. \<forall>y \<in> set s2Examples.
            \<bar>twist_angle a - twist_angle b\<bar> \<le> \<bar>twist_angle x - twist_angle y\<bar>)"
    using eq by blast
qed (simp_all add: findBestComparisonPair_def)

theorem findBestComparisonPair_minimal_gap_witness:
  "[entry 1 0 0 True, entry 4 1 1 True] \<noteq> [] \<and> [entry 5 2 2 False] \<noteq> []
   \<and> twistDifference (findBestComparisonPair [entry 1 0 0 True, entry 4 1 1 True] [entry 5 2 2 False])
       = Some (Fin 1)
   \<and> s1Frame (findBestComparisonPair [] [entry 5 2 2 False]) = None
   \<and> twistDifference (findBestComparisonPair [] [entry 5 2 2 False]) = None"
proof -
  let ?s1 = "[entry 1 0 0 True, entry 4 1 1 True]"
  let ?s2 = "[entry 5 2 2 False]"
  have ne: "?s1 \<noteq> [] \<and> ?s2 \<noteq> []" by simp
  from findBestComparisonPair_minimal_gap [of ?s1 ?s2] ne
  obtain a b where ab: "a \<in> set ?s1" "b \<in> set ?s2"
    and eq: "findBestComparisonPair ?s1 ?s2 =
           \<lparr> s1Frame = Some a, s2Frame = Some b,
              twistDifference = Some (Fin \<bar>twist_angle a - twist_angle b\<bar>) \<rparr>"
    and least: "\<forall>x \<in> set ?s1. \<forall>y \<in> set ?s2.
            \<bar>twist_angle a - twist_angle b\<bar> \<le> \<bar>twist_angle x - twist_angle y\<bar>"
    by blast
  from least have "\<bar>twist_angle a - twist_angle b\<bar> \<le> 1"
    by (simp add: entry_def)
  moreover from ab have "\<bar>twist_angle a - twist_angle b\<bar> = 4 \<or> \<bar>twist_angle a - twist_angle b\<bar> = 1"
    by (auto simp: entry_def)
  ultimately have "\<bar>twist_angle a - twist_angle b\<bar> = 1" by linarith
  with eq have "twistDifference (findBestComparisonPair ?s1 ?s2) = Some (Fin 1)" by simp
  moreover have "s1Frame (findBestComparisonPair [] ?s2) = None
     \<and> twistDifference (findBestComparisonPair [] ?s2) = None"
    using findBestComparisonPair_minimal_gap [of "[]" ?s2] by simp
  ultimately show ?thesis by simp
qed

text \<open>What the bins do guarantee: a bin is never empty, its members are correlated
  frames, and every member lies below the upper edge of the last bin.\<close>

lemma make_bin_cases:
  "make_bin cs m i = [] \<or>
   (\<exists>b. make_bin cs m i = [b] \<and>
        allFrames b = filter (\<lambda>d. twist_angle d \<ge> m + real i * binSize \<and>
                                   twist_angle d < m + real i * binSize + binSize) cs \<and>
        totalCount b = length (allFrames b) \<and> 0 < totalCount b \<and>
        twistAngleDifference b =
          twistDifference (findBestComparisonPair (filter s1_dominant (allFrames b))
                             (filter (\<lambda>d. \<not> s1_dominant d) (allFrames b))))"
  by (simp add: make_bin_def Let_def)

lemma binData_bins:
  assumes "b \<in> set (binData cs)"
  shows "0 < totalCount b \<and> totalCount b = length (allFrames b) \<and>
          set (allFrames b) \<subseteq> set cs \<and>
         twistAngleDifference b =
          twistDifference (findBestComparisonPair (filter s1_dominant (allFrames b))
                             (filter (\<lambda>d. \<not> s1_dominant d) (allFrames b)))"
proof -
  from assms obtain m i where "b \<in> set (make_bin cs m i)"
    by (auto simp: binData_def Let_def split: if_splits)
  with make_bin_cases [of cs m i] show ?thesis by auto
qed

lemma binData_misses_upper_edge:
  assumes "b \<in> set (binData cs)" "d \<in> set (allFrames b)"
  shows "twist_angle d < Min (set (map twist_angle cs)) + real (numBins cs) * binSize"
proof -
  let ?m = "Min (set (map twist_angle cs))"
  from assms(1) obtain i where i: "i < numBins cs" and b: "b \<in> set (make_bin cs ?m i)"
    by (auto simp: binData_def Let_def split: if_splits)
  from b make_bin_cases [of cs ?m i] assms(2)
  have "twist_angle d < ?m + real i * binSize + binSize" by auto
  also have "\<dots> = ?m + real (Suc i) * binSize" by (simp add: algebra_simps)
  also have "\<dots> \<le> ?m + real (numBins cs) * binSize"
  proof -
    from i have "real (Suc i) \<le> real (numBins cs)" by simp
    then have "real (Suc i) * binSize \<le> real (numBins cs) * binSize"
      by (intro mult_right_mono) (simp_all add: binSize_def)
    then show ?thesis by simp
  qed
  finally show ?thesis .
qed

text \<open>
  C2. Evaluation at a range that is a multiple of the bin size: two correlated frames with twist angles 0 and 5 give one bin, from 0 to 5, that holds only the first frame; the frame with the maximum twist angle is in no bin and the bin totals sum to 1, not 2. A single correlated frame gives no bin at all.
\<close>

theorem createDMABNChart_drops_maximum_frame:
  "createDMABNChart [frame 0 0 0, frame 5 0.5 1]
       [\<lparr> exc_time_fs = 0, exc_s1_oscillator = JNum (Fin 0.1), exc_s2_oscillator = JNum (Fin 0.4) \<rparr>]
     = Some (binData [entry 0 0 0 False, entry 5 0.5 1 False])
   \<and> correlationData [frame 0 0 0, frame 5 0.5 1]
       [\<lparr> exc_time_fs = 0, exc_s1_oscillator = JNum (Fin 0.1), exc_s2_oscillator = JNum (Fin 0.4) \<rparr>]
     = [entry 0 0 0 False, entry 5 0.5 1 False]
   \<and> map allFrames (binData [entry 0 0 0 False, entry 5 0.5 1 False]) = [[entry 0 0 0 False]]
   \<and> sum_list (map totalCount (binData [entry 0 0 0 False, entry 5 0.5 1 False])) = 1
   \<and> binData [entry 5 0.5 1 False] = []"
  by (simp add: createDMABNChart_def correlationData_def correlate_frame_def nearest_def
      nearest_step_def num_gt_def binData_def numBins_def make_bin_def binSize_def Let_def
      frame_def entry_def)

end
